theory Spec2Isabelle
  imports Complex_Main
begin

section \<open>Numbers, sequences and errors of the Python program\<close>

text \<open>
  The program computes with numpy's float64. The embedding keeps the finite values as
  exact reals (no rounding, no overflow, no underflow, one zero) and keeps the three
  special values, because the program can produce them without raising: numpy's division
  by zero returns an infinity or NaN and only warns.
\<close>

datatype npfloat = Fin real | PosInf | NegInf | NaN

datatype error = IndexError | TypeError | ValueError | FileNotFoundError

text \<open>Addition of two floats (IEEE 754 special cases).\<close>

fun fadd :: "npfloat \<Rightarrow> npfloat \<Rightarrow> npfloat" where
  "fadd NaN y = NaN"
| "fadd x NaN = NaN"
| "fadd (Fin a) (Fin b) = Fin (a + b)"
| "fadd PosInf NegInf = NaN"
| "fadd NegInf PosInf = NaN"
| "fadd PosInf y = PosInf"
| "fadd NegInf y = NegInf"
| "fadd (Fin a) y = y"

text \<open>The infinity with the sign of a product or quotient: negative iff the flag is set.\<close>

definition signed_inf :: "bool \<Rightarrow> npfloat" where
  "signed_inf neg = (if neg then NegInf else PosInf)"

text \<open>Multiplication: infinity times zero is NaN.\<close>

fun fmul :: "npfloat \<Rightarrow> npfloat \<Rightarrow> npfloat" where
  "fmul NaN y = NaN"
| "fmul x NaN = NaN"
| "fmul (Fin a) (Fin b) = Fin (a * b)"
| "fmul (Fin a) PosInf = (if a = 0 then NaN else signed_inf (a < 0))"
| "fmul (Fin a) NegInf = (if a = 0 then NaN else signed_inf (0 < a))"
| "fmul PosInf (Fin b) = (if b = 0 then NaN else signed_inf (b < 0))"
| "fmul NegInf (Fin b) = (if b = 0 then NaN else signed_inf (0 < b))"
| "fmul PosInf PosInf = PosInf"
| "fmul PosInf NegInf = NegInf"
| "fmul NegInf PosInf = NegInf"
| "fmul NegInf NegInf = PosInf"

text \<open>
  numpy's true division. Nothing is raised: a finite non-zero value over zero is an
  infinity, zero over zero and infinity over infinity are NaN.
\<close>

fun fdiv :: "npfloat \<Rightarrow> npfloat \<Rightarrow> npfloat" where
  "fdiv NaN y = NaN"
| "fdiv x NaN = NaN"
| "fdiv (Fin a) (Fin b) =
     (if b = 0 then (if a = 0 then NaN else signed_inf (a < 0)) else Fin (a / b))"
| "fdiv (Fin a) y = Fin 0"
| "fdiv PosInf (Fin b) = signed_inf (b < 0)"
| "fdiv NegInf (Fin b) = signed_inf (\<not> b < 0)"
| "fdiv x y = NaN"

text \<open>
  Python's \<^verbatim>\<open>sum(xs)\<close>: a left fold that starts at 0. \<^verbatim>\<open>np.sum\<close> is modelled by the
  same fold (the order of the additions does not matter without rounding).
\<close>

definition py_sum :: "npfloat list \<Rightarrow> npfloat" where
  "py_sum xs = foldl fadd (Fin 0) xs"

text \<open>Python's \<^verbatim>\<open>xs[i]\<close> on a list, range or array: a negative index counts from the end.\<close>

definition py_index :: "'a list \<Rightarrow> int \<Rightarrow> error + 'a" where
  "py_index xs i =
     (let n = int (length xs); j = (if i < 0 then i + n else i)
      in if 0 \<le> j \<and> j < n then Inr (xs ! nat j) else Inl IndexError)"

text \<open>Python's \<^verbatim>\<open>range(n)\<close>, empty when \<open>n \<le> 0\<close>.\<close>

definition py_range :: "int \<Rightarrow> int list" where
  "py_range n = [0..n - 1]"

text \<open>
  A loop that appends one computed value per element and stops at the first exception.
\<close>

fun for_append :: "('a \<Rightarrow> error + 'b) \<Rightarrow> 'a list \<Rightarrow> error + 'b list" where
  "for_append f [] = Inr []"
| "for_append f (x # xs) =
     (case f x of
        Inl e \<Rightarrow> Inl e
      | Inr y \<Rightarrow> (case for_append f xs of Inl e \<Rightarrow> Inl e | Inr ys \<Rightarrow> Inr (y # ys)))"

text \<open>
  A sequence attribute is either a Python list or a numpy array. The difference matters
  for \<^verbatim>\<open>**\<close>, which a list does not support.
\<close>

datatype 'a pyseq = PyList "'a list" | NdArray "'a list"

fun items :: "'a pyseq \<Rightarrow> 'a list" where
  "items (PyList xs) = xs"
| "items (NdArray xs) = xs"

section \<open>External collaborators\<close>

text \<open>
  \<^verbatim>\<open>CalibrationSettings\<close> (imported as \<^verbatim>\<open>Sets\<close>) is not part of the source under
  verification; its constants are taken as a parameter.
\<close>

record settings =
  PRIOR_L :: real
  PRIOR_U :: real
  PRIOR_N :: int
  SIM_POP_SIZE :: int
  TIME_STEPS :: int
  OBS_MEAN :: real
  OBS_STDEV :: real

text \<open>
  \<^verbatim>\<open>np.random.uniform(low, high, size)\<close>: \<open>size\<close> values \<open>low + (high - low) * u\<close>, where
  \<open>u 0, u 1, \<dots>\<close> are the generator's draws from the unit interval. A negative size is a
  ValueError.
\<close>

definition np_random_uniform :: "(nat \<Rightarrow> real) \<Rightarrow> real \<Rightarrow> real \<Rightarrow> int \<Rightarrow> error + npfloat list" where
  "np_random_uniform u low high n =
     (if n < 0 then Inl ValueError
      else Inr (map (\<lambda>i. Fin (low + (high - low) * u i)) [0..<nat n]))"

text \<open>
  \<^verbatim>\<open>scipy.stats.norm.pdf(x, loc, scale)\<close>: the argument is standardised to
  \<open>y = (x - loc) / scale\<close>; the result is NaN when the scale is not positive or \<open>y\<close> is NaN,
  0 when \<open>y\<close> is infinite, and \<open>exp (- y\<^sup>2 / 2) / sqrt (2 \<pi>) / scale\<close> otherwise.
\<close>

definition norm_pdf_std :: "real \<Rightarrow> real" where
  "norm_pdf_std y = exp (- (y\<^sup>2) / 2) / sqrt (2 * pi)"

fun norm_pdf :: "real \<Rightarrow> npfloat \<Rightarrow> real \<Rightarrow> npfloat" where
  "norm_pdf x loc scale =
     (if \<not> 0 < scale then NaN
      else (case loc of
              NaN \<Rightarrow> NaN
            | PosInf \<Rightarrow> Fin 0
            | NegInf \<Rightarrow> Fin 0
            | Fin m \<Rightarrow> Fin (norm_pdf_std ((x - m) / scale) / scale)))"

text \<open>
  \<^verbatim>\<open>MultiSurvivalModelClasses.MultiCohort\<close> is the external simulator. Constructing one
  stores the three lists; \<^verbatim>\<open>simulate\<close> is taken as a parameter that maps the ids, the
  mortality probabilities, the population sizes and the number of time steps to the list
  \<^verbatim>\<open>multiCohortOutcomes.meanSurvivalTimes\<close>, or raises. It is a function: it does not
  change the lists it is given.
\<close>

type_synonym simulator = "int list \<Rightarrow> npfloat list \<Rightarrow> int list \<Rightarrow> int \<Rightarrow> error + npfloat list"

record multi_cohort =
  ids :: "int list"
  pop_sizes :: "int list"
  mortality_probs :: "npfloat list"
  meanSurvivalTimes :: "npfloat list option"

text \<open>Python's \<^verbatim>\<open>[x] * n\<close>, empty when \<open>n \<le> 0\<close>.\<close>

definition py_repeat :: "'a \<Rightarrow> int \<Rightarrow> 'a list" where
  "py_repeat x n = replicate (nat n) x"

text \<open>The cells of a row handed to \<^verbatim>\<open>IO.write_csv\<close>, and the files written so far.\<close>

datatype cell = CStr string | CInt int | CFlt npfloat

type_synonym files = "string \<rightharpoonup> cell list list"

section \<open>Calibration\<close>

record calibration =
  cohortIDs :: "int list"
  mortalitySamples :: "npfloat list"
  normalizedWeights :: "npfloat pyseq"
  mortalityResamples :: "npfloat list"

definition Calibration_init :: calibration where
  "Calibration_init =
     \<lparr>cohortIDs = [], mortalitySamples = [], normalizedWeights = PyList [],
      mortalityResamples = []\<rparr>"

text \<open>Lines 53 to 69: the likelihood weight of every cohort id.\<close>

definition likelihood_weights :: "settings \<Rightarrow> int list \<Rightarrow> npfloat list \<Rightarrow> error + npfloat list" where
  "likelihood_weights S cids means =
     for_append
       (\<lambda>cohort_id.
          case py_index means cohort_id of
            Inl e \<Rightarrow> Inl e
          | Inr mean \<Rightarrow> Inr (norm_pdf (OBS_MEAN S) mean (OBS_STDEV S)))
       cids"

text \<open>Lines 71 to 73: \<^verbatim>\<open>np.divide(weights, sum(weights))\<close>.\<close>

definition normalize :: "npfloat list \<Rightarrow> npfloat list" where
  "normalize weights = (let sum_weights = py_sum weights in map (\<lambda>w. fdiv w sum_weights) weights)"

text \<open>Lines 75 to 80: the header and one row per mortality sample.\<close>

definition csv_header :: "cell list" where
  "csv_header = [CStr ''Cohort ID'', CStr ''Likelihood Weights'', CStr ''Mortality Prob'']"

definition csv_row :: "calibration \<Rightarrow> nat \<Rightarrow> error + cell list" where
  "csv_row self i =
     (case py_index (cohortIDs self) (int i) of
        Inl e \<Rightarrow> Inl e
      | Inr c \<Rightarrow>
          (case py_index (items (normalizedWeights self)) (int i) of
             Inl e \<Rightarrow> Inl e
           | Inr w \<Rightarrow>
               (case py_index (mortalitySamples self) (int i) of
                  Inl e \<Rightarrow> Inl e
                | Inr p \<Rightarrow> Inr [CInt c, CFlt w, CFlt p])))"

text \<open>
  Lines 71 to 85: normalise the weights, store them, build the rows and write the file.
  The result is the exception raised (if any), the object and the files afterwards.
\<close>

definition normalize_and_report ::
  "calibration \<Rightarrow> npfloat list \<Rightarrow> files \<Rightarrow> error option \<times> calibration \<times> files" where
  "normalize_and_report self weights fs =
     (let self' = self\<lparr>normalizedWeights := NdArray (normalize weights)\<rparr>
      in case for_append (csv_row self') [0..<length (mortalitySamples self')] of
           Inl e \<Rightarrow> (Some e, self', fs)
         | Inr body \<Rightarrow> (None, self', fs(''CalibrationResults.csv'' \<mapsto> csv_header # body)))"

text \<open>
  Lines 31 to 69: seed the generator, assign the ids, draw the samples, run the simulator
  and weigh every cohort. \<open>seed\<close> gives, for a seed, the stream of unit draws of the
  generator seeded with it. The result is the list of raw weights or the exception raised,
  and the object at that point.
\<close>

definition draw_and_weigh ::
  "settings \<Rightarrow> (nat \<Rightarrow> nat \<Rightarrow> real) \<Rightarrow> simulator \<Rightarrow> int \<Rightarrow> calibration
     \<Rightarrow> (error + npfloat list) \<times> calibration" where
  "draw_and_weigh S seed sim n_samples self =
     (let self1 = self\<lparr>cohortIDs := py_range n_samples\<rparr>
      in case np_random_uniform (seed 1) (PRIOR_L S) (PRIOR_U S) (PRIOR_N S) of
           Inl e \<Rightarrow> (Inl e, self1)
         | Inr samples \<Rightarrow>
             (let self2 = self1\<lparr>mortalitySamples := samples\<rparr>
              in case sim (cohortIDs self2) (mortalitySamples self2)
                        (py_repeat (SIM_POP_SIZE S) (PRIOR_N S)) (TIME_STEPS S) of
                   Inl e \<Rightarrow> (Inl e, self2)
                 | Inr means \<Rightarrow> (likelihood_weights S (cohortIDs self2) means, self2)))"

text \<open>\<^verbatim>\<open>Calibration.sample_posterior\<close>: the two parts in sequence.\<close>

definition sample_posterior ::
  "settings \<Rightarrow> (nat \<Rightarrow> nat \<Rightarrow> real) \<Rightarrow> simulator \<Rightarrow> int \<Rightarrow> calibration \<Rightarrow> files
     \<Rightarrow> error option \<times> calibration \<times> files" where
  "sample_posterior S seed sim n_samples self fs =
     (case draw_and_weigh S seed sim n_samples self of
        (Inl e, self2) \<Rightarrow> (Some e, self2, fs)
      | (Inr weights, self2) \<Rightarrow> normalize_and_report self2 weights fs)"

text \<open>
  \<^verbatim>\<open>Calibration.get_effective_sample_size\<close>. Before \<^verbatim>\<open>sample_posterior\<close> has run the
  attribute is a Python list, and \<^verbatim>\<open>** 2\<close> on it is a TypeError. The squares, the sum
  and the quotient are exact here; float64 rounds each of them, so the value the program
  returns differs from this one by a relative error of a few units in the sixteenth digit.
\<close>

definition get_effective_sample_size :: "calibration \<Rightarrow> error + npfloat" where
  "get_effective_sample_size self =
     (case normalizedWeights self of
        PyList ws \<Rightarrow> Inl TypeError
      | NdArray ws \<Rightarrow> Inr (fdiv (Fin 1) (py_sum (map (\<lambda>w. fmul w w) ws))))"

section \<open>CalibratedModel\<close>

datatype CalibrationColIndex = ID | W | MORT_PROB

fun col_value :: "CalibrationColIndex \<Rightarrow> int" where
  "col_value ID = 0"
| "col_value W = 1"
| "col_value MORT_PROB = 2"

text \<open>
  \<^verbatim>\<open>IO.read_csv_cols(file_name, n_cols, if_ignore_first_row, if_convert_float)\<close> is
  external: a parameter that returns the columns of the file as arrays of floats, or raises.
\<close>

type_synonym csv_reader = "string \<Rightarrow> int \<Rightarrow> bool \<Rightarrow> bool \<Rightarrow> error + npfloat list list"

text \<open>
  \<^verbatim>\<open>astype(int)\<close> truncates towards zero. numpy leaves the result for NaN, the infinities
  and values outside the 64-bit range to the platform; the model takes the value that
  x86-64 produces, the least 64-bit integer.
\<close>

definition astype_int :: "npfloat \<Rightarrow> int" where
  "astype_int x =
     (case x of
        Fin r \<Rightarrow>
          (let t = (if 0 \<le> r then \<lfloor>r\<rfloor> else \<lceil>r\<rceil>)
           in if - (2 ^ 63) \<le> t \<and> t < 2 ^ 63 then t else - (2 ^ 63))
      | _ \<Rightarrow> - (2 ^ 63))"

record calibrated_model =
  cohortIDs_cm :: "int list"
  weights :: "npfloat list"
  mortalityProbs :: "npfloat list"
  resampledMortalityProb :: "npfloat list"
  multiCohorts :: "multi_cohort option"

text \<open>
  \<^verbatim>\<open>CalibratedModel.__init__\<close>. The optional argument \<^verbatim>\<open>drug_effectiveness_ratio\<close> is
  \<open>None\<close> when the caller leaves it out; its default is 1.
\<close>

definition CalibratedModel_init ::
  "csv_reader \<Rightarrow> string \<Rightarrow> npfloat option \<Rightarrow> error + calibrated_model" where
  "CalibratedModel_init read_csv_cols csv_file_name ratio_arg =
     (let drug_effectiveness_ratio = (case ratio_arg of None \<Rightarrow> Fin 1 | Some r \<Rightarrow> r)
      in case read_csv_cols csv_file_name 3 True True of
           Inl e \<Rightarrow> Inl e
         | Inr cols \<Rightarrow>
             (case py_index cols (col_value ID) of
                Inl e \<Rightarrow> Inl e
              | Inr c0 \<Rightarrow>
                  (case py_index cols (col_value W) of
                     Inl e \<Rightarrow> Inl e
                   | Inr c1 \<Rightarrow>
                       (case py_index cols (col_value MORT_PROB) of
                          Inl e \<Rightarrow> Inl e
                        | Inr c2 \<Rightarrow>
                            Inr \<lparr>cohortIDs_cm = map astype_int c0,
                                 weights = c1,
                                 mortalityProbs = map (\<lambda>p. fmul p drug_effectiveness_ratio) c2,
                                 resampledMortalityProb = [],
                                 multiCohorts = None\<rparr>))))"

text \<open>
  \<^verbatim>\<open>np.random.choice(a=range(0, n), size=k, replace=True, p=weights)\<close>. Every rejected
  argument is a ValueError: a negative size, an empty population, a probability that is
  NaN, infinite or negative, a sum further than \<open>sqrt eps = 2\<^sup>-\<^sup>2\<^sup>6\<close> from 1. Otherwise the
  cumulative sums are divided by their last entry, and the \<open>i\<close>-th sample is the position
  at which the unit draw \<open>u i\<close> is inserted to the right in them, looked up in \<open>a\<close>.
\<close>

fun finite_values :: "npfloat list \<Rightarrow> real list option" where
  "finite_values [] = Some []"
| "finite_values (x # xs) =
     (case x of
        Fin r \<Rightarrow> (case finite_values xs of None \<Rightarrow> None | Some rs \<Rightarrow> Some (r # rs))
      | _ \<Rightarrow> None)"

fun cumsum :: "real \<Rightarrow> real list \<Rightarrow> real list" where
  "cumsum acc [] = []"
| "cumsum acc (x # xs) = (acc + x) # cumsum (acc + x) xs"

definition searchsorted_right :: "real list \<Rightarrow> real \<Rightarrow> nat" where
  "searchsorted_right cdf x = length (takeWhile (\<lambda>c. c \<le> x) cdf)"

definition np_random_choice :: "(nat \<Rightarrow> real) \<Rightarrow> int \<Rightarrow> npfloat list \<Rightarrow> error + nat list" where
  "np_random_choice u k p =
     (case finite_values p of
        None \<Rightarrow> Inl ValueError
      | Some ps \<Rightarrow>
          if k < 0 \<or> ps = [] \<or> list_ex (\<lambda>r. r < 0) ps \<or> 1 / 2 ^ 26 < \<bar>sum_list ps - 1\<bar>
          then Inl ValueError
          else
            (let cdf = map (\<lambda>c. c / last (cumsum 0 ps)) (cumsum 0 ps);
                 idx = map (\<lambda>i. searchsorted_right cdf (u i)) [0..<nat k]
             in if list_all (\<lambda>j. j < length ps) idx then Inr idx else Inl IndexError))"

text \<open>
  Lines 133 to 137: the loop over the sampled indices. An exception leaves the values
  appended so far in place.
\<close>

fun resample_loop ::
  "nat list \<Rightarrow> int list \<Rightarrow> calibrated_model \<Rightarrow> error option \<times> int list \<times> calibrated_model" where
  "resample_loop [] resampled_ids self = (None, resampled_ids, self)"
| "resample_loop (i # rest) resampled_ids self =
     (case py_index (cohortIDs_cm self) (int i) of
        Inl e \<Rightarrow> (Some e, resampled_ids, self)
      | Inr c \<Rightarrow>
          (case py_index (mortalityProbs self) (int i) of
             Inl e \<Rightarrow> (Some e, resampled_ids @ [c], self)
           | Inr p \<Rightarrow>
               resample_loop rest (resampled_ids @ [c])
                 (self\<lparr>resampledMortalityProb := resampledMortalityProb self @ [p]\<rparr>)))"

text \<open>
  \<^verbatim>\<open>CalibratedModel.simulate\<close>; \<open>u\<close> is the stream of unit draws the generator gives this
  call, \<open>cohort_ids = None\<close> the default argument. The result is the exception raised (if
  any) and the object afterwards.
\<close>

definition simulate ::
  "(nat \<Rightarrow> real) \<Rightarrow> simulator \<Rightarrow> int \<Rightarrow> int \<Rightarrow> int \<Rightarrow> int list option \<Rightarrow> calibrated_model
     \<Rightarrow> error option \<times> calibrated_model" where
  "simulate u sim num_of_simulated_cohorts cohort_size time_steps cohort_ids self =
     (case np_random_choice u num_of_simulated_cohorts (weights self) of
        Inl e \<Rightarrow> (Some e, self)
      | Inr sampled_row_indices \<Rightarrow>
          (case resample_loop sampled_row_indices [] self of
             (Some e, resampled_ids, self1) \<Rightarrow> (Some e, self1)
           | (None, resampled_ids, self1) \<Rightarrow>
               (let mc = \<lparr>ids = (case cohort_ids of None \<Rightarrow> resampled_ids | Some given \<Rightarrow> given),
                          pop_sizes = py_repeat cohort_size num_of_simulated_cohorts,
                          mortality_probs = resampledMortalityProb self1,
                          meanSurvivalTimes = None\<rparr>;
                    self2 = self1\<lparr>multiCohorts := Some mc\<rparr>
                in case sim (ids mc) (mortality_probs mc) (pop_sizes mc) time_steps of
                     Inl e \<Rightarrow> (Some e, self2)
                   | Inr means \<Rightarrow>
                       (None, self2\<lparr>multiCohorts := Some (mc\<lparr>meanSurvivalTimes := Some means\<rparr>)\<rparr>))))"

text \<open>
  \<^verbatim>\<open>SimPy.Statistics.SummaryStat\<close> is external: its constructor and the two methods the
  program calls are parameters.
\<close>

record 'st summary_stat_lib =
  SummaryStat :: "string \<Rightarrow> npfloat list \<Rightarrow> error + 'st"
  get_mean :: "'st \<Rightarrow> npfloat"
  get_PI :: "'st \<Rightarrow> npfloat \<Rightarrow> npfloat list"

text \<open>\<^verbatim>\<open>CalibratedModel.get_mortality_estimate_credible_interval\<close>.\<close>

definition get_mortality_estimate_credible_interval ::
  "'st summary_stat_lib \<Rightarrow> npfloat \<Rightarrow> calibrated_model \<Rightarrow> error + npfloat \<times> npfloat list" where
  "get_mortality_estimate_credible_interval Stat alpha self =
     (case SummaryStat Stat ''Posterior samples'' (resampledMortalityProb self) of
        Inl e \<Rightarrow> Inl e
      | Inr sum_stat \<Rightarrow>
          (let estimate = get_mean Stat sum_stat;
               credible_interval = get_PI Stat sum_stat alpha
           in Inr (estimate, credible_interval)))"

section \<open>Notions of the specification\<close>

text \<open>
  The Gaussian probability density at \<open>x\<close> of the normal distribution with mean \<open>mu\<close> and
  standard deviation \<open>sigma\<close>, as the specification names it.
\<close>

definition gaussian_density :: "real \<Rightarrow> real \<Rightarrow> real \<Rightarrow> real" where
  "gaussian_density x mu sigma = exp (- ((x - mu)\<^sup>2) / (2 * sigma\<^sup>2)) / (sigma * sqrt (2 * pi))"

text \<open>
  A weight vector is normalised within a tolerance when every entry is non-negative and
  the entries sum to 1 within the tolerance. NaN is neither non-negative nor near 1.
\<close>

fun nonneg_float :: "npfloat \<Rightarrow> bool" where
  "nonneg_float (Fin r) = (0 \<le> r)"
| "nonneg_float PosInf = True"
| "nonneg_float NegInf = False"
| "nonneg_float NaN = False"

definition weights_normalized :: "real \<Rightarrow> npfloat list \<Rightarrow> bool" where
  "weights_normalized tol ws =
     (list_all nonneg_float ws \<and> (case py_sum ws of Fin s \<Rightarrow> \<bar>s - 1\<bar> \<le> tol | _ \<Rightarrow> False))"

text \<open>The values a likelihood weight can take: a non-negative number or NaN.\<close>

fun pdf_value :: "npfloat \<Rightarrow> bool" where
  "pdf_value (Fin r) = (0 \<le> r)"
| "pdf_value NaN = True"
| "pdf_value PosInf = False"
| "pdf_value NegInf = False"

section \<open>Example inputs\<close>

text \<open>
  The stub simulator of the specification's end-to-end scenario maps a parameter \<open>p\<close> to
  the outcome \<open>20 * (1 - p)\<close>; the stub generator's \<open>i\<close>-th unit draw is \<open>1 / (i + 2)\<close>.
\<close>

definition stub_simulator :: simulator where
  "stub_simulator cids probs pops steps =
     Inr (map (\<lambda>p. case p of Fin r \<Rightarrow> Fin (20 * (1 - r)) | x \<Rightarrow> x) probs)"

definition stub_seed :: "nat \<Rightarrow> nat \<Rightarrow> real" where
  "stub_seed s i = 1 / (2 + real i)"

definition settings_two_draws :: settings where
  "settings_two_draws =
     \<lparr>PRIOR_L = 0, PRIOR_U = 1, PRIOR_N = 2, SIM_POP_SIZE = 100, TIME_STEPS = 10,
      OBS_MEAN = 10, OBS_STDEV = 2\<rparr>"

text \<open>
  Eleven equal raw weights \<open>0.19947114020071635\<close> (the density at its mean for a
  standard deviation of 2) are normalised by float64 to eleven times the double
  \<open>0.0909090909090909\<close>, which is \<open>6550690367084357 / 2\<^sup>5\<^sup>6\<close> and lies just below \<open>1 / 11\<close>.
  The object holds that vector.
\<close>

definition eleventh_stored :: real where
  "eleventh_stored = 6550690367084357 / 2 ^ 56"

definition calibration_eleven :: calibration where
  "calibration_eleven =
     \<lparr>cohortIDs = [0..10], mortalitySamples = replicate 11 (Fin (1 / 2)),
      normalizedWeights = NdArray (replicate 11 (Fin eleventh_stored)),
      mortalityResamples = []\<rparr>"

text \<open>
  Settings with a standard deviation of zero, which scipy answers with NaN, for one and
  for two draws; and an object as it is after the weights of two cohorts have been computed.
\<close>

definition settings_zero_stdev :: settings where
  "settings_zero_stdev =
     \<lparr>PRIOR_L = 0, PRIOR_U = 1, PRIOR_N = 1, SIM_POP_SIZE = 100, TIME_STEPS = 10,
      OBS_MEAN = 10, OBS_STDEV = 0\<rparr>"

definition settings_zero_stdev_two :: settings where
  "settings_zero_stdev_two =
     \<lparr>PRIOR_L = 0, PRIOR_U = 1, PRIOR_N = 2, SIM_POP_SIZE = 100, TIME_STEPS = 10,
      OBS_MEAN = 10, OBS_STDEV = 0\<rparr>"

definition calibration_weighed :: calibration where
  "calibration_weighed =
     \<lparr>cohortIDs = [0, 1], mortalitySamples = [Fin (1 / 5), Fin (4 / 5)],
      normalizedWeights = PyList [], mortalityResamples = []\<rparr>"

text \<open>
  Readers standing for \<^verbatim>\<open>IO.read_csv_cols\<close>: one returns the table with rows
  \<open>(0, 0.5, 0.2)\<close> and \<open>(1, 0.5, 0.8)\<close>, one a table whose weights sum to 0.7, one finds no
  file, one returns two columns only.
\<close>

definition stub_reader :: csv_reader where
  "stub_reader file_name n_cols if_ignore_first_row if_convert_float =
     Inr [[Fin 0, Fin 1], [Fin (1 / 2), Fin (1 / 2)], [Fin (1 / 5), Fin (4 / 5)]]"

definition unnormalized_reader :: csv_reader where
  "unnormalized_reader file_name n_cols if_ignore_first_row if_convert_float =
     Inr [[Fin 0, Fin 1], [Fin (1 / 2), Fin (1 / 5)], [Fin (1 / 5), Fin (4 / 5)]]"

definition missing_file_reader :: csv_reader where
  "missing_file_reader file_name n_cols if_ignore_first_row if_convert_float =
     Inl FileNotFoundError"

definition two_column_reader :: csv_reader where
  "two_column_reader file_name n_cols if_ignore_first_row if_convert_float =
     Inr [[Fin 0], [Fin 1]]"

text \<open>
  The model loaded from the first table, the same object after a call of \<open>simulate\<close> for
  two cohorts with the single caller-provided id 7, and the model loaded from the table
  whose weights sum to 0.7.
\<close>

definition calibrated_two :: calibrated_model where
  "calibrated_two =
     \<lparr>cohortIDs_cm = [0, 1], weights = [Fin (1 / 2), Fin (1 / 2)],
      mortalityProbs = [Fin (1 / 5), Fin (4 / 5)], resampledMortalityProb = [],
      multiCohorts = None\<rparr>"

definition calibrated_relabelled :: calibrated_model where
  "calibrated_relabelled =
     calibrated_two
       \<lparr>resampledMortalityProb := [Fin (4 / 5), Fin (1 / 5)],
        multiCohorts :=
          Some \<lparr>ids = [7], pop_sizes = [100, 100],
                mortality_probs = [Fin (4 / 5), Fin (1 / 5)],
                meanSurvivalTimes = Some [Fin 4, Fin 16]\<rparr>\<rparr>"

definition calibrated_unnormalized :: calibrated_model where
  "calibrated_unnormalized =
     \<lparr>cohortIDs_cm = [0, 1], weights = [Fin (1 / 2), Fin (1 / 5)],
      mortalityProbs = [Fin (1 / 5), Fin (4 / 5)], resampledMortalityProb = [],
      multiCohorts = None\<rparr>"

text \<open>
  A stand-in for \<^verbatim>\<open>SummaryStat\<close>: it rejects empty data, its mean is the arithmetic
  mean, and its interval is made of the first and the last value.
\<close>

definition stub_stat :: "(npfloat list) summary_stat_lib" where
  "stub_stat =
     \<lparr>SummaryStat = (\<lambda>name data. if data = [] then Inl ValueError else Inr data),
      get_mean = (\<lambda>data. fdiv (py_sum data) (Fin (real (length data)))),
      get_PI = (\<lambda>data alpha. [hd data, last data])\<rparr>"

section \<open>Sums, loops and the Gaussian density\<close>

lemma foldl_fadd_Fin: "foldl fadd (Fin a) (map Fin xs) = Fin (a + sum_list xs)"
  by (induction xs arbitrary: a) (simp_all add: add.assoc)

lemma py_sum_Fin: "py_sum (map Fin xs) = Fin (sum_list xs)"
  by (simp add: py_sum_def foldl_fadd_Fin)

lemma member_le_sum_list_real:
  fixes ws :: "real list"
  shows "\<forall>w\<in>set ws. 0 \<le> w \<Longrightarrow> x \<in> set ws \<Longrightarrow> x \<le> sum_list ws"
proof (induction ws)
  case Nil
  then show ?case by simp
next
  case (Cons a ws)
  have "0 \<le> sum_list ws" using Cons.prems(1) by (simp add: sum_list_nonneg)
  moreover have "0 \<le> a" using Cons.prems(1) by simp
  ultimately show ?case using Cons by auto
qed

lemma sum_list_shifted_squares:
  fixes ws :: "real list"
  shows "(\<Sum>w\<leftarrow>ws. (w - c)\<^sup>2) = (\<Sum>w\<leftarrow>ws. w\<^sup>2) - 2 * c * sum_list ws + real (length ws) * c\<^sup>2"
  by (induction ws) (simp_all add: power2_diff algebra_simps)

lemma unit_list_sum:
  "i < n \<Longrightarrow> sum_list ((replicate n (0::real))[i := 1]) = 1"
proof (induction n arbitrary: i)
  case 0
  then show ?case by simp
next
  case (Suc n)
  then show ?case by (cases i) (simp_all add: sum_list_replicate)
qed

lemma zero_one_list_unit:
  fixes ws :: "real list"
  shows "((\<forall>w\<in>set ws. w = 0 \<or> w = 1) \<and> sum_list ws = 1)
     \<longleftrightarrow> (\<exists>i<length ws. ws = (replicate (length ws) 0)[i := 1])"
proof
  assume "(\<forall>w\<in>set ws. w = 0 \<or> w = 1) \<and> sum_list ws = 1"
  then show "\<exists>i<length ws. ws = (replicate (length ws) 0)[i := 1]"
  proof (induction ws)
    case Nil
    then show ?case by simp
  next
    case (Cons a ws)
    then have a: "a = 0 \<or> a = 1" by simp
    show ?case
    proof (cases "a = 1")
      case True
      then have s0: "sum_list ws = 0" using Cons.prems by simp
      have "\<forall>w\<in>set ws. 0 \<le> w" using Cons.prems by auto
      then have "\<forall>w\<in>set ws. w = 0" using s0 by (simp add: sum_list_nonneg_eq_0_iff)
      then have "ws = replicate (length ws) 0"
        by (simp add: replicate_length_same)
      then have "a # ws = (replicate (length (a # ws)) 0)[0 := 1]" using True by simp
      then show ?thesis by blast
    next
      case False
      then have a0: "a = 0" using a by simp
      then have "(\<forall>w\<in>set ws. w = 0 \<or> w = 1) \<and> sum_list ws = 1" using Cons.prems by simp
      then obtain i where i: "i < length ws" "ws = (replicate (length ws) 0)[i := 1]"
        using Cons.IH by blast
      have "a # ws = (replicate (length (a # ws)) 0)[Suc i := 1]"
        using a0 i(2) by simp
      then show ?thesis using i(1) by (metis Suc_less_eq length_Cons)
    qed
  qed
next
  assume "\<exists>i<length ws. ws = (replicate (length ws) 0)[i := 1]"
  then obtain i where i: "i < length ws" "ws = (replicate (length ws) 0)[i := 1]" by blast
  have "sum_list ws = 1" using i unit_list_sum by metis
  moreover have "\<forall>w\<in>set ws. w = 0 \<or> w = 1"
  proof
    fix w assume "w \<in> set ws"
    then have "w \<in> set ((replicate (length ws) 0)[i := 1])" using i(2) by simp
    then have "w \<in> insert 1 (set (replicate (length ws) (0::real)))"
      using set_update_subset_insert by fastforce
    then show "w = 0 \<or> w = 1" by auto
  qed
  ultimately show "(\<forall>w\<in>set ws. w = 0 \<or> w = 1) \<and> sum_list ws = 1" by blast
qed

lemma sum_squares_within:
  fixes ws :: "real list"
  assumes nonneg: "\<forall>w\<in>set ws. 0 \<le> w" and pos: "0 < sum_list ws"
  shows "0 < length ws"
    and "(\<Sum>w\<leftarrow>ws. w\<^sup>2) \<le> (sum_list ws)\<^sup>2"
    and "(sum_list ws)\<^sup>2 / real (length ws) \<le> (\<Sum>w\<leftarrow>ws. w\<^sup>2)"
    and "(\<forall>x\<in>set ws. \<forall>y\<in>set ws. x = y)
           \<Longrightarrow> (\<Sum>w\<leftarrow>ws. w\<^sup>2) = (sum_list ws)\<^sup>2 / real (length ws)"
proof -
  let ?Q = "\<Sum>w\<leftarrow>ws. w\<^sup>2"
  let ?S = "sum_list ws"
  let ?n = "real (length ws)"
  show len: "0 < length ws" using pos by (cases ws) simp_all
  have gap: "0 \<le> w * ?S - w\<^sup>2" if w: "w \<in> set ws" for w
  proof -
    have "w \<le> ?S" using member_le_sum_list_real [OF nonneg w] .
    moreover have "0 \<le> w" using nonneg w by simp
    ultimately have "w * w \<le> w * ?S" by (rule mult_left_mono)
    then show ?thesis by (simp add: power2_eq_square)
  qed
  have "(\<Sum>w\<leftarrow>ws. w * ?S - w\<^sup>2) = ?S * ?S - ?Q"
    by (simp add: sum_list_subtractf sum_list_mult_const mult.commute)
  moreover have "0 \<le> (\<Sum>w\<leftarrow>ws. w * ?S - w\<^sup>2)" using gap by (intro sum_list_nonneg) auto
  ultimately show "?Q \<le> ?S\<^sup>2" by (simp add: power2_eq_square)
  have e1: "?n * (?S / ?n)\<^sup>2 = ?S\<^sup>2 / ?n"
    using len by (simp add: power2_eq_square)
  have e2: "2 * (?S / ?n) * ?S = 2 * (?S\<^sup>2 / ?n)"
    by (simp add: power2_eq_square)
  have e3: "(\<Sum>w\<leftarrow>ws. (w - ?S / ?n)\<^sup>2) = ?Q - 2 * (?S / ?n) * ?S + ?n * (?S / ?n)\<^sup>2"
    by (rule sum_list_shifted_squares)
  have "(\<Sum>w\<leftarrow>ws. (w - ?S / ?n)\<^sup>2) = ?Q - 2 * (?S\<^sup>2 / ?n) + ?S\<^sup>2 / ?n"
    by (simp only: e3 e1 e2)
  also have "\<dots> = ?Q - ?S\<^sup>2 / ?n" by linarith
  finally have shifted: "(\<Sum>w\<leftarrow>ws. (w - ?S / ?n)\<^sup>2) = ?Q - ?S\<^sup>2 / ?n" .
  have "0 \<le> (\<Sum>w\<leftarrow>ws. (w - ?S / ?n)\<^sup>2)" by (intro sum_list_nonneg) auto
  then show "?S\<^sup>2 / ?n \<le> ?Q" using shifted by simp
  show "?Q = ?S\<^sup>2 / ?n" if eq: "\<forall>x\<in>set ws. \<forall>y\<in>set ws. x = y"
  proof -
    obtain c where c: "c \<in> set ws" using len by (cases ws) auto
    then have all: "\<forall>w\<in>set ws. w = c" using eq by blast
    then have rep: "ws = replicate (length ws) c" by (simp add: replicate_length_same)
    have "sum_list (replicate (length ws) c) = ?n * c" by (simp add: sum_list_replicate)
    then have "?n * c = ?S" using rep by simp
    then have cval: "c = ?S / ?n" using len by (simp add: field_simps)
    have "(\<Sum>w\<leftarrow>ws. (w - ?S / ?n)\<^sup>2) = (\<Sum>w\<leftarrow>ws. 0)"
      using all cval by (intro arg_cong [where f = sum_list] map_cong) auto
    then show ?thesis using shifted by simp
  qed
qed

lemma tolerance_slack:
  "1 - 1 / 10 ^ 8 \<le> (1 - 1 / 10 ^ 9) / (1 + 1 / 10 ^ 9 :: real)\<^sup>2"
  "(1 + 1 / 10 ^ 9) / (1 - 1 / 10 ^ 9 :: real)\<^sup>2 \<le> 1 + 1 / 10 ^ 8"
  by (simp_all add: power2_eq_square field_simps)

lemma quotient_within:
  fixes ws :: "real list"
  assumes nonneg: "\<forall>w\<in>set ws. 0 \<le> w"
    and tol: "\<bar>sum_list ws - 1\<bar> \<le> 1 / 10 ^ 9"
  shows "0 < (\<Sum>w\<leftarrow>ws. w\<^sup>2)"
    and "1 / (1 + 1 / 10 ^ 9)\<^sup>2 \<le> 1 / (\<Sum>w\<leftarrow>ws. w\<^sup>2)"
    and "1 / (\<Sum>w\<leftarrow>ws. w\<^sup>2) \<le> real (length ws) / (1 - 1 / 10 ^ 9)\<^sup>2"
    and "(\<forall>x\<in>set ws. \<forall>y\<in>set ws. x = y)
           \<Longrightarrow> real (length ws) / (1 + 1 / 10 ^ 9)\<^sup>2 \<le> 1 / (\<Sum>w\<leftarrow>ws. w\<^sup>2)"
proof -
  let ?Q = "\<Sum>w\<leftarrow>ws. w\<^sup>2"
  let ?S = "sum_list ws"
  let ?n = "real (length ws)"
  let ?t = "1 / 10 ^ 9 :: real"
  have S: "1 - ?t \<le> ?S" "?S \<le> 1 + ?t" using tol unfolding abs_le_iff by linarith+
  have "0 < 1 - ?t" by simp
  then have Spos: "0 < ?S" using S(1) by linarith
  note b = sum_squares_within [OF nonneg Spos]
  have n: "0 < ?n" using b(1) by simp
  have S2pos: "0 < ?S\<^sup>2" using Spos by simp
  have S2hi: "?S\<^sup>2 \<le> (1 + ?t)\<^sup>2"
    using Spos S(2) by (intro power_mono) simp_all
  have S2lo: "(1 - ?t)\<^sup>2 \<le> ?S\<^sup>2"
    using S(1) by (intro power_mono) simp_all
  have lopos: "0 < (1 - ?t)\<^sup>2" by simp
  have "0 < ?S\<^sup>2 / ?n" using S2pos n by simp
  then show Q: "0 < ?Q" using b(3) by linarith
  have "1 / (1 + ?t)\<^sup>2 \<le> 1 / ?S\<^sup>2"
    using S2pos S2hi by (intro frac_le) simp_all
  also have "\<dots> \<le> 1 / ?Q"
    using Q b(2) by (intro frac_le) simp_all
  finally show "1 / (1 + ?t)\<^sup>2 \<le> 1 / ?Q" .
  have "1 / ?Q \<le> 1 / (?S\<^sup>2 / ?n)"
    using \<open>0 < ?S\<^sup>2 / ?n\<close> b(3) by (intro frac_le) simp_all
  also have "\<dots> = ?n / ?S\<^sup>2" by simp
  also have "\<dots> \<le> ?n / (1 - ?t)\<^sup>2"
    using n lopos S2lo by (intro frac_le) simp_all
  finally show "1 / ?Q \<le> ?n / (1 - ?t)\<^sup>2" .
  show "?n / (1 + ?t)\<^sup>2 \<le> 1 / ?Q" if eq: "\<forall>x\<in>set ws. \<forall>y\<in>set ws. x = y"
  proof -
    have "?Q = ?S\<^sup>2 / ?n" using b(4) [OF eq] .
    then have "1 / ?Q = ?n / ?S\<^sup>2" by simp
    moreover have "?n / (1 + ?t)\<^sup>2 \<le> ?n / ?S\<^sup>2"
      using n S2pos S2hi by (intro frac_le) simp_all
    ultimately show ?thesis by simp
  qed
qed

lemma replicate_eleven: "replicate 11 x = [x, x, x, x, x, x, x, x, x, x, x]"
  by (simp add: eval_nat_numeral)

lemma gaussian_density_norm_pdf:
  assumes "0 < sigma"
  shows "norm_pdf_std ((x - m) / sigma) / sigma = gaussian_density x m sigma"
proof -
  have "((x - m) / sigma)\<^sup>2 / 2 = (x - m)\<^sup>2 / (2 * sigma\<^sup>2)"
    by (simp add: power_divide)
  then have "- (((x - m) / sigma)\<^sup>2) / 2 = - ((x - m)\<^sup>2) / (2 * sigma\<^sup>2)"
    by simp
  then show ?thesis
    by (simp add: norm_pdf_std_def gaussian_density_def mult.commute)
qed

lemma gaussian_density_closer:
  assumes "0 < sigma" and "\<bar>m1 - x\<bar> \<le> \<bar>m2 - x\<bar>"
  shows "gaussian_density x m2 sigma \<le> gaussian_density x m1 sigma"
proof -
  have "(m1 - x)\<^sup>2 \<le> (m2 - x)\<^sup>2" using assms(2) by (simp add: abs_le_square_iff)
  then have "(x - m1)\<^sup>2 \<le> (x - m2)\<^sup>2" by (simp add: power2_commute)
  then have "(x - m1)\<^sup>2 / (2 * sigma\<^sup>2) \<le> (x - m2)\<^sup>2 / (2 * sigma\<^sup>2)"
    using assms(1) by (simp add: divide_right_mono)
  then have "exp (- ((x - m2)\<^sup>2) / (2 * sigma\<^sup>2)) \<le> exp (- ((x - m1)\<^sup>2) / (2 * sigma\<^sup>2))"
    by simp
  moreover have "0 < sigma * sqrt (2 * pi)" using assms(1) by simp
  ultimately show ?thesis
    unfolding gaussian_density_def by (simp add: divide_right_mono)
qed

lemma for_append_all_ok:
  assumes "\<forall>x\<in>set xs. f x = Inr (g x)"
  shows "for_append f xs = Inr (map g xs)"
  using assms by (induction xs) simp_all

lemma for_append_length: "for_append f xs = Inr ys \<Longrightarrow> length ys = length xs"
  by (induction xs arbitrary: ys) (auto split: sum.splits)

lemma for_append_set:
  "for_append f xs = Inr ys \<Longrightarrow> y \<in> set ys \<Longrightarrow> \<exists>x\<in>set xs. f x = Inr y"
  by (induction xs arbitrary: ys) (auto split: sum.splits)

lemma norm_pdf_std_nonneg: "0 \<le> norm_pdf_std y"
  by (simp add: norm_pdf_std_def)

lemma norm_pdf_value: "pdf_value (norm_pdf x loc scale)"
  by (cases loc) (simp_all add: norm_pdf_std_nonneg)

lemma likelihood_weights_values:
  assumes "likelihood_weights S cids means = Inr ws"
  shows "length ws = length cids \<and> (\<forall>w\<in>set ws. pdf_value w)"
proof -
  have "length ws = length cids"
    using assms unfolding likelihood_weights_def by (rule for_append_length)
  moreover have "pdf_value w" if w: "w \<in> set ws" for w
  proof -
    obtain c where "(case py_index means c of Inl e \<Rightarrow> Inl e
        | Inr mean \<Rightarrow> Inr (norm_pdf (OBS_MEAN S) mean (OBS_STDEV S))) = Inr w"
      using for_append_set [OF assms [unfolded likelihood_weights_def] w] by blast
    then obtain mean where "w = norm_pdf (OBS_MEAN S) mean (OBS_STDEV S)"
      by (auto split: sum.splits)
    then show ?thesis using norm_pdf_value by simp
  qed
  ultimately show ?thesis by blast
qed

lemma length_py_range: "length (py_range n) = nat n"
  by (simp add: py_range_def)

lemma draw_and_weigh_facts:
  assumes "draw_and_weigh S seed sim n self = (Inr ws, self2)"
  shows "cohortIDs self2 = py_range n" and "length (mortalitySamples self2) = nat (PRIOR_N S)"
    and "length ws = nat n" and "\<forall>w\<in>set ws. pdf_value w"
proof -
  from assms obtain samples means where
    u: "np_random_uniform (seed 1) (PRIOR_L S) (PRIOR_U S) (PRIOR_N S) = Inr samples" and
    s2: "self2 = self\<lparr>cohortIDs := py_range n, mortalitySamples := samples\<rparr>" and
    lw: "likelihood_weights S (py_range n) means = Inr ws"
    by (auto simp: draw_and_weigh_def Let_def split: sum.splits)
  show "cohortIDs self2 = py_range n" using s2 by simp
  have "length samples = nat (PRIOR_N S)"
    using u by (auto simp: np_random_uniform_def split: if_splits)
  then show "length (mortalitySamples self2) = nat (PRIOR_N S)" using s2 by simp
  show "length ws = nat n" using likelihood_weights_values [OF lw] by (simp add: length_py_range)
  show "\<forall>w\<in>set ws. pdf_value w" using likelihood_weights_values [OF lw] by simp
qed

lemma foldl_fadd_finite:
  "foldl fadd acc ws = Fin s \<Longrightarrow> \<exists>a rs. acc = Fin a \<and> ws = map Fin rs \<and> s = a + sum_list rs"
proof (induction ws arbitrary: acc)
  case Nil
  then show ?case by simp
next
  case (Cons w ws)
  then obtain a' rs where a': "fadd acc w = Fin a'" "ws = map Fin rs" "s = a' + sum_list rs"
    by fastforce
  from a'(1) obtain a b where "acc = Fin a" "w = Fin b" "a' = a + b"
    by (cases acc; cases w) auto
  then have "acc = Fin a \<and> w # ws = map Fin (b # rs) \<and> s = a + sum_list (b # rs)"
    using a' by simp
  then show ?case by (intro exI [of _ a] exI [of _ "b # rs"])
qed

lemma py_sum_finite: "py_sum ws = Fin s \<Longrightarrow> \<exists>rs. ws = map Fin rs \<and> s = sum_list rs"
  unfolding py_sum_def by (drule foldl_fadd_finite) auto

lemma foldl_fadd_NaN: "foldl fadd NaN ws = NaN"
  by (induction ws) simp_all

lemma fdiv_NaN_right: "fdiv w NaN = NaN"
  by (cases w) simp_all

lemma normalize_degenerate:
  assumes vals: "\<forall>w\<in>set ws. pdf_value w" and deg: "py_sum ws = Fin 0 \<or> py_sum ws = NaN"
  shows "normalize ws = replicate (length ws) NaN"
proof -
  have "fdiv w (py_sum ws) = NaN" if "w \<in> set ws" for w
  proof (cases "py_sum ws = NaN")
    case True
    then show ?thesis by (simp add: fdiv_NaN_right)
  next
    case False
    then have z: "py_sum ws = Fin 0" using deg by simp
    then obtain rs where rs: "ws = map Fin rs" "sum_list rs = 0"
      using py_sum_finite by fastforce
    have "\<forall>r\<in>set rs. 0 \<le> r" using vals rs(1) by auto
    then have "\<forall>r\<in>set rs. r = 0" using rs(2) by (simp add: sum_list_nonneg_eq_0_iff)
    then have "w = Fin 0" using that rs(1) by auto
    then show ?thesis using z by simp
  qed
  then have "map (\<lambda>w. fdiv w (py_sum ws)) ws = map (\<lambda>w. NaN) ws" by simp
  then show ?thesis by (simp add: normalize_def map_replicate_const)
qed

lemma sum_list_scaled:
  fixes rs :: "real list"
  shows "sum_list (map (\<lambda>r. r / s) rs) = sum_list rs / s"
  by (induction rs) (simp_all add: add_divide_distrib)

lemma normalize_regular:
  assumes "py_sum ws = Fin s" and "0 < s" and vals: "\<forall>w\<in>set ws. pdf_value w"
  shows "\<exists>rs. normalize ws = map Fin rs \<and> (\<forall>r\<in>set rs. 0 \<le> r) \<and> sum_list rs = 1"
proof -
  obtain rs where rs: "ws = map Fin rs" "s = sum_list rs"
    using py_sum_finite [OF assms(1)] by blast
  have nn: "\<forall>r\<in>set rs. 0 \<le> r" using vals rs(1) by auto
  have "normalize ws = map Fin (map (\<lambda>r. r / s) rs)"
    using assms(1,2) rs(1) by (simp add: normalize_def)
  moreover have "\<forall>r\<in>set (map (\<lambda>r. r / s) rs). 0 \<le> r" using nn assms(2) by simp
  moreover have "sum_list (map (\<lambda>r. r / s) rs) = 1"
    using assms(2) rs(2) by (simp add: sum_list_scaled)
  ultimately show ?thesis by blast
qed

lemma py_index_in_range:
  "0 \<le> i \<Longrightarrow> i < int (length xs) \<Longrightarrow> py_index xs i = Inr (xs ! nat i)"
  by (simp add: py_index_def Let_def)

lemma upto_0_1: "[0..1::int] = [0, 1]"
  by (simp add: upto.simps)

lemmas run_defs =
  sample_posterior_def draw_and_weigh_def np_random_uniform_def Calibration_init_def
  py_range_def upt_rec likelihood_weights_def normalize_and_report_def csv_row_def
  py_index_def Let_def normalize_def stub_seed_def stub_simulator_def py_sum_def
  py_repeat_def

lemma normalize_and_report_stores:
  "normalize_and_report self ws fs = (err, self', fs')
     \<Longrightarrow> self' = self\<lparr>normalizedWeights := NdArray (normalize ws)\<rparr>"
  by (auto simp: normalize_and_report_def Let_def split: sum.splits)

section \<open>Calibration: the claims\<close>

text \<open>
  C1 (the code departs from the claim). The claim is that \<open>n_samples\<close> parameter values
  are drawn, as many as ids are assigned. The code draws \<open>PRIOR_N\<close> values whatever
  \<open>n_samples\<close> is: with \<open>PRIOR_N = 2\<close> and \<open>n_samples = 1\<close> one id is assigned, two values
  are drawn, and the call raises for every simulator and writes no file.
\<close>

theorem sample_posterior_draws_PRIOR_N:
  "\<exists>err self'.
     sample_posterior settings_two_draws seed sim 1 Calibration_init fs = (Some err, self', fs)
     \<and> length (cohortIDs self') = 1 \<and> length (mortalitySamples self') = 2"
  by (auto simp: sample_posterior_def draw_and_weigh_def settings_two_draws_def
      np_random_uniform_def Calibration_init_def py_range_def upt_rec likelihood_weights_def
      normalize_and_report_def csv_row_def py_index_def Let_def normalize_def
      split: sum.splits)

text \<open>
  C3 (as amended). On a weight vector whose entries are non-negative and sum to 1 within
  \<open>10\<^sup>-\<^sup>9\<close>, \<open>get_effective_sample_size\<close> returns \<open>1 / (\<Sum> w\<^sup>2)\<close>. That value, and every value
  within a relative distance of \<open>10\<^sup>-\<^sup>9\<close> of it (which covers float64 rounding), is at
  least \<open>1 - 10\<^sup>-\<^sup>8\<close> and at most the number of weights times \<open>1 + 10\<^sup>-\<^sup>8\<close>; when all
  weights are equal it is at least the number of weights times \<open>1 - 10\<^sup>-\<^sup>8\<close>; when one
  weight is 1 and the others are 0 the value is exactly 1.
\<close>

theorem effective_sample_size_within_tolerance:
  assumes nw: "normalizedWeights self = NdArray (map Fin ws)"
    and nonneg: "\<forall>w\<in>set ws. 0 \<le> w"
    and tol: "\<bar>sum_list ws - 1\<bar> \<le> 1 / 10 ^ 9"
  shows "\<exists>ess. get_effective_sample_size self = Inr (Fin ess)
           \<and> ess = 1 / (\<Sum>w\<leftarrow>ws. w\<^sup>2)
           \<and> (\<forall>r. \<bar>r - ess\<bar> \<le> ess / 10 ^ 9
                 \<longrightarrow> 1 - 1 / 10 ^ 8 \<le> r \<and> r \<le> real (length ws) * (1 + 1 / 10 ^ 8))
           \<and> ((\<forall>x\<in>set ws. \<forall>y\<in>set ws. x = y)
                \<longrightarrow> (\<forall>r. \<bar>r - ess\<bar> \<le> ess / 10 ^ 9
                       \<longrightarrow> real (length ws) * (1 - 1 / 10 ^ 8) \<le> r))
           \<and> ((\<exists>i<length ws. ws = (replicate (length ws) 0)[i := 1]) \<longrightarrow> ess = 1)"
proof -
  let ?Q = "\<Sum>w\<leftarrow>ws. w\<^sup>2"
  let ?n = "real (length ws)"
  let ?t = "1 / 10 ^ 9 :: real"
  let ?ess = "1 / ?Q"
  note q = quotient_within [OF nonneg tol]
  have sq: "map (\<lambda>w. fmul w w) (map Fin ws) = map Fin (map (\<lambda>w. w\<^sup>2) ws)"
    by (simp add: power2_eq_square)
  have run: "get_effective_sample_size self = Inr (Fin ?ess)"
    using q(1) by (simp add: get_effective_sample_size_def nw sq py_sum_Fin del: map_map)
  have epos: "0 < ?ess" using q(1) by simp
  have n0: "0 \<le> ?n" by simp
  have lower: "1 - 1 / 10 ^ 8 \<le> r" and upper: "r \<le> ?n * (1 + 1 / 10 ^ 8)"
    if r: "\<bar>r - ?ess\<bar> \<le> ?ess / 10 ^ 9" for r
  proof -
    have r1: "?ess * (1 - ?t) \<le> r" and r2: "r \<le> ?ess * (1 + ?t)"
      using r unfolding abs_le_iff by (simp_all add: algebra_simps)
    have "(1 - ?t) / (1 + ?t)\<^sup>2 = (1 / (1 + ?t)\<^sup>2) * (1 - ?t)" by simp
    also have "\<dots> \<le> ?ess * (1 - ?t)"
      using q(2) by (intro mult_right_mono) simp_all
    finally show "1 - 1 / 10 ^ 8 \<le> r" using tolerance_slack(1) r1 by linarith
    have "?ess * (1 + ?t) \<le> (?n / (1 - ?t)\<^sup>2) * (1 + ?t)"
      using q(3) by (intro mult_right_mono) simp_all
    also have "\<dots> = ?n * ((1 + ?t) / (1 - ?t)\<^sup>2)" by simp
    also have "\<dots> \<le> ?n * (1 + 1 / 10 ^ 8)"
      using tolerance_slack(2) n0 by (intro mult_left_mono)
    finally show "r \<le> ?n * (1 + 1 / 10 ^ 8)" using r2 by linarith
  qed
  have equal: "?n * (1 - 1 / 10 ^ 8) \<le> r"
    if eq: "\<forall>x\<in>set ws. \<forall>y\<in>set ws. x = y" and r: "\<bar>r - ?ess\<bar> \<le> ?ess / 10 ^ 9" for r
  proof -
    have r1: "?ess * (1 - ?t) \<le> r"
      using r unfolding abs_le_iff by (simp add: algebra_simps)
    have "?n * (1 - 1 / 10 ^ 8) \<le> ?n * ((1 - ?t) / (1 + ?t)\<^sup>2)"
      using tolerance_slack(1) n0 by (intro mult_left_mono)
    also have "\<dots> = (?n / (1 + ?t)\<^sup>2) * (1 - ?t)" by simp
    also have "\<dots> \<le> ?ess * (1 - ?t)"
      using q(4) [OF eq] by (intro mult_right_mono) simp_all
    finally show ?thesis using r1 by linarith
  qed
  have onehot: "?ess = 1" if "\<exists>i<length ws. ws = (replicate (length ws) 0)[i := 1]"
  proof -
    have z: "(\<forall>w\<in>set ws. w = 0 \<or> w = 1) \<and> sum_list ws = 1"
      using that by (simp add: zero_one_list_unit)
    then have "map (\<lambda>w. w\<^sup>2) ws = map (\<lambda>w. w) ws"
      by (intro map_cong) auto
    then have "?Q = 1" using z by simp
    then show ?thesis by simp
  qed
  show ?thesis
    using run lower upper equal onehot by (intro exI [of _ ?ess]) blast
qed

theorem effective_sample_size_within_tolerance_witness:
  "\<exists>ess. get_effective_sample_size calibration_eleven = Inr (Fin ess)
     \<and> 1 - 1 / 10 ^ 8 \<le> ess \<and> ess \<le> 11 * (1 + 1 / 10 ^ 8) \<and> 11 * (1 - 1 / 10 ^ 8) \<le> ess"
proof -
  let ?ws = "replicate 11 eleventh_stored"
  have nw: "normalizedWeights calibration_eleven = NdArray (map Fin ?ws)"
    by (simp add: calibration_eleven_def)
  have nonneg: "\<forall>w\<in>set ?ws. 0 \<le> w" by (simp add: eleventh_stored_def)
  have tol: "\<bar>sum_list ?ws - 1\<bar> \<le> 1 / 10 ^ 9"
    by (simp add: sum_list_replicate eleventh_stored_def)
  obtain ess where
    run: "get_effective_sample_size calibration_eleven = Inr (Fin ess)" and
    near: "\<forall>r. \<bar>r - ess\<bar> \<le> ess / 10 ^ 9
             \<longrightarrow> 1 - 1 / 10 ^ 8 \<le> r \<and> r \<le> real (length ?ws) * (1 + 1 / 10 ^ 8)" and
    equal: "(\<forall>x\<in>set ?ws. \<forall>y\<in>set ?ws. x = y)
             \<longrightarrow> (\<forall>r. \<bar>r - ess\<bar> \<le> ess / 10 ^ 9
                    \<longrightarrow> real (length ?ws) * (1 - 1 / 10 ^ 8) \<le> r)" and
    val: "ess = 1 / (\<Sum>w\<leftarrow>?ws. w\<^sup>2)"
    using effective_sample_size_within_tolerance [OF nw nonneg tol] by blast
  have "0 \<le> ess" using val by (simp add: sum_list_replicate)
  then have self: "\<bar>ess - ess\<bar> \<le> ess / 10 ^ 9" by simp
  have "1 - 1 / 10 ^ 8 \<le> ess" "ess \<le> 11 * (1 + 1 / 10 ^ 8)"
    using near [rule_format, OF self] by simp_all
  moreover have "11 * (1 - 1 / 10 ^ 8) \<le> ess"
    using equal [rule_format, OF _ self] by simp
  ultimately show ?thesis using run by blast
qed

text \<open>
  C3 as stated fails: the vector of eleven equal weights that the program stores is
  non-negative and sums to 1 within \<open>10\<^sup>-\<^sup>9\<close>, and its effective sample size is above 11,
  so it is neither within \<open>[1, 11]\<close> nor equal to 11 although all weights are equal. (In
  float64 the program returns \<open>11.000000000000002\<close>.)
\<close>

theorem effective_sample_size_exceeds_counterexample:
  "normalizedWeights calibration_eleven = NdArray (replicate 11 (Fin eleventh_stored))
   \<and> weights_normalized (1 / 10 ^ 9) (replicate 11 (Fin eleventh_stored))
   \<and> get_effective_sample_size calibration_eleven
       = Inr (Fin (1 / (11 * eleventh_stored\<^sup>2)))
   \<and> 11 < 1 / (11 * eleventh_stored\<^sup>2)"
  by (simp add: calibration_eleven_def weights_normalized_def get_effective_sample_size_def
      py_sum_def replicate_eleven eleventh_stored_def power2_eq_square)

text \<open>
  C2 (the code departs from the claim). The claim, like the comment on the attribute
  (\<open>sums to 1\<close>), is that after a successful run the normalised weights are non-negative
  and sum to 1. The code divides by the sum without looking at it. When every density
  underflows to \<open>0.0\<close> in float64 (an observed standard deviation of 0.01 and simulated means
  more than 0.39 away from the observed mean), the raw weights are \<open>[0, 0]\<close>: their sum is
  zero, lines 71 to 85 return normally, and the stored weights are NaN, which are not
  non-negative and do not sum to 1. The exact density of this embedding does not underflow,
  so the run is evaluated from these raw weights on.
\<close>

theorem normalized_weights_underflow:
  "py_sum [Fin 0, Fin 0] = Fin 0
   \<and> normalize [Fin 0, Fin 0] = [NaN, NaN]
   \<and> fst (normalize_and_report calibration_weighed [Fin 0, Fin 0] Map.empty) = None
   \<and> normalizedWeights
        (fst (snd (normalize_and_report calibration_weighed [Fin 0, Fin 0] Map.empty)))
       = NdArray [NaN, NaN]
   \<and> \<not> weights_normalized (1 / 10 ^ 9) [NaN, NaN]"
  by (simp add: py_sum_def normalize_def normalize_and_report_def csv_row_def py_index_def
      Let_def upt_rec calibration_weighed_def weights_normalized_def)

text \<open>
  C5. With a positive observed standard deviation and finite simulated means, the raw
  weight of every candidate is the Gaussian density at the observed mean with the
  candidate's simulated mean as location and the observed standard deviation as scale;
  of two candidates, the one whose simulated mean is at most as far from the observed mean
  has the weight that is at least as large.
\<close>

theorem likelihood_weights_gaussian:
  assumes sd: "0 < OBS_STDEV S"
    and ok: "\<forall>c\<in>set cids. 0 \<le> c \<and> c < int (length ms)"
  shows "\<exists>ws. likelihood_weights S cids (map Fin ms) = Inr (map Fin ws)
           \<and> length ws = length cids
           \<and> (\<forall>i<length cids.
                 ws ! i = gaussian_density (OBS_MEAN S) (ms ! nat (cids ! i)) (OBS_STDEV S))
           \<and> (\<forall>i<length cids. \<forall>j<length cids.
                 \<bar>ms ! nat (cids ! i) - OBS_MEAN S\<bar> \<le> \<bar>ms ! nat (cids ! j) - OBS_MEAN S\<bar>
                 \<longrightarrow> ws ! j \<le> ws ! i)"
proof -
  let ?g = "\<lambda>c. gaussian_density (OBS_MEAN S) (ms ! nat c) (OBS_STDEV S)"
  let ?ws = "map ?g cids"
  have step: "(case py_index (map Fin ms) c of
                 Inl e \<Rightarrow> Inl e
               | Inr mean \<Rightarrow> Inr (norm_pdf (OBS_MEAN S) mean (OBS_STDEV S))) = Inr (Fin (?g c))"
    if c: "c \<in> set cids" for c
  proof -
    have c0: "0 \<le> c" and c1: "c < int (length ms)" using ok c by auto
    then have "nat c < length ms" by simp
    then have "map Fin ms ! nat c = Fin (ms ! nat c)" by simp
    then have "py_index (map Fin ms) c = Inr (Fin (ms ! nat c))"
      using c0 c1 by (simp add: py_index_in_range)
    then show ?thesis using sd by (simp add: gaussian_density_norm_pdf)
  qed
  have "likelihood_weights S cids (map Fin ms) = Inr (map (\<lambda>c. Fin (?g c)) cids)"
    unfolding likelihood_weights_def using step by (intro for_append_all_ok) blast
  then have run: "likelihood_weights S cids (map Fin ms) = Inr (map Fin ?ws)"
    by (simp add: comp_def)
  have order: "?ws ! j \<le> ?ws ! i"
    if "i < length cids" "j < length cids"
      "\<bar>ms ! nat (cids ! i) - OBS_MEAN S\<bar> \<le> \<bar>ms ! nat (cids ! j) - OBS_MEAN S\<bar>" for i j
    using that sd by (simp add: gaussian_density_closer)
  show ?thesis
    using run order by (intro exI [of _ ?ws]) simp
qed

theorem likelihood_weights_gaussian_witness:
  "\<exists>ws. likelihood_weights settings_two_draws [0, 1] (map Fin [16, 10]) = Inr (map Fin ws)
     \<and> ws ! 0 = gaussian_density 10 16 2 \<and> ws ! 1 = gaussian_density 10 10 2
     \<and> ws ! 0 \<le> ws ! 1"
proof -
  have sd: "0 < OBS_STDEV settings_two_draws" by (simp add: settings_two_draws_def)
  have ok: "\<forall>c\<in>set [0, 1 :: int]. 0 \<le> c \<and> c < int (length [16, 10 :: real])" by simp
  obtain ws where
    run: "likelihood_weights settings_two_draws [0, 1] (map Fin [16, 10]) = Inr (map Fin ws)" and
    val: "\<forall>i<length [0, 1 :: int]. ws ! i =
            gaussian_density (OBS_MEAN settings_two_draws) ([16, 10] ! nat ([0, 1] ! i))
              (OBS_STDEV settings_two_draws)" and
    ord: "\<forall>i<length [0, 1 :: int]. \<forall>j<length [0, 1 :: int].
            \<bar>[16, 10] ! nat ([0, 1] ! i) - OBS_MEAN settings_two_draws\<bar>
              \<le> \<bar>[16, 10] ! nat ([0, 1] ! j) - OBS_MEAN settings_two_draws\<bar>
            \<longrightarrow> ws ! j \<le> ws ! i"
    using likelihood_weights_gaussian [OF sd ok] by blast
  have v0: "ws ! 0 = gaussian_density 10 16 2"
    using val [rule_format, of 0] by (simp add: settings_two_draws_def)
  have v1: "ws ! 1 = gaussian_density 10 10 2"
    using val [rule_format, of 1] by (simp add: settings_two_draws_def)
  have "ws ! 0 \<le> ws ! 1"
    using ord [rule_format, of 1 0] by (simp add: settings_two_draws_def)
  then show ?thesis using run v0 v1 by blast
qed

text \<open>
  C4 (as amended). \<open>sample_posterior\<close> does not check the sum of the raw weights. When the
  sum is zero or NaN and at least \<open>PRIOR_N\<close> ids were assigned, the run returns normally:
  every normalised weight is NaN, the NaNs are stored in \<open>normalizedWeights\<close>, and the
  file is written with NaN in the weight column of every row.
\<close>

theorem degenerate_weights_not_rejected:
  assumes raw: "draw_and_weigh S seed sim n self = (Inr ws, self2)"
    and deg: "py_sum ws = Fin 0 \<or> py_sum ws = NaN"
    and rows: "PRIOR_N S \<le> n"
  shows "\<exists>body.
           sample_posterior S seed sim n self fs =
             (None, self2\<lparr>normalizedWeights := NdArray (replicate (nat n) NaN)\<rparr>,
              fs(''CalibrationResults.csv'' \<mapsto> csv_header # body))
           \<and> length body = nat (PRIOR_N S)
           \<and> list_all (\<lambda>row. row ! 1 = CFlt NaN) body"
proof -
  note f = draw_and_weigh_facts [OF raw]
  let ?self' = "self2\<lparr>normalizedWeights := NdArray (replicate (nat n) NaN)\<rparr>"
  let ?row = "\<lambda>i. [CInt (cohortIDs self2 ! i), CFlt NaN, CFlt (mortalitySamples self2 ! i)]"
  let ?body = "map ?row [0..<nat (PRIOR_N S)]"
  have norm: "normalize ws = replicate (nat n) NaN"
    using normalize_degenerate [OF f(4) deg] f(3) by simp
  have row: "csv_row ?self' i = Inr (?row i)" if i: "i \<in> set [0..<nat (PRIOR_N S)]" for i
  proof -
    have "i < nat n" using i rows by auto
    moreover have "i < length (mortalitySamples self2)" using i f(2) by simp
    moreover have "length (cohortIDs self2) = nat n" using f(1) by (simp add: length_py_range)
    ultimately show ?thesis by (auto simp: csv_row_def py_index_def Let_def)
  qed
  have "for_append (csv_row ?self') [0..<nat (PRIOR_N S)] = Inr ?body"
    using row by (intro for_append_all_ok) blast
  then have "normalize_and_report self2 ws fs =
      (None, ?self', fs(''CalibrationResults.csv'' \<mapsto> csv_header # ?body))"
    using norm f(2) by (simp add: normalize_and_report_def Let_def)
  then have "sample_posterior S seed sim n self fs =
      (None, ?self', fs(''CalibrationResults.csv'' \<mapsto> csv_header # ?body))"
    using raw by (simp add: sample_posterior_def)
  moreover have "length ?body = nat (PRIOR_N S)" by simp
  moreover have "list_all (\<lambda>row. row ! 1 = CFlt NaN) ?body" by (simp add: list_all_iff)
  ultimately show ?thesis by blast
qed

theorem degenerate_weights_not_rejected_witness:
  "\<exists>body.
     sample_posterior settings_zero_stdev stub_seed stub_simulator 1 Calibration_init Map.empty =
       (None,
        \<lparr>cohortIDs = [0], mortalitySamples = [Fin (1 / 2)], normalizedWeights = NdArray [NaN],
         mortalityResamples = []\<rparr>,
        [''CalibrationResults.csv'' \<mapsto> csv_header # body])
     \<and> length body = 1 \<and> list_all (\<lambda>row. row ! 1 = CFlt NaN) body"
proof -
  have raw: "draw_and_weigh settings_zero_stdev stub_seed stub_simulator 1 Calibration_init =
      (Inr [NaN],
       \<lparr>cohortIDs = [0], mortalitySamples = [Fin (1 / 2)], normalizedWeights = PyList [],
        mortalityResamples = []\<rparr>)"
    by (simp add: run_defs settings_zero_stdev_def)
  have deg: "py_sum [NaN] = Fin 0 \<or> py_sum [NaN] = NaN" by (simp add: py_sum_def)
  have rows: "PRIOR_N settings_zero_stdev \<le> 1" by (simp add: settings_zero_stdev_def)
  show ?thesis
    using degenerate_weights_not_rejected [OF raw deg rows, of Map.empty]
    by (simp add: settings_zero_stdev_def)
qed

text \<open>
  C4 as stated fails. Raw weights \<open>[0, 0]\<close> sum to zero, and lines 71 to 85 return
  normally with NaN stored and written; with an observed standard deviation of 0 the raw
  weights of a whole run are NaN, their sum is NaN, and the run returns normally with NaN
  stored and written.
\<close>

theorem degenerate_weights_counterexample:
  "py_sum [Fin 0, Fin 0] = Fin 0
   \<and> normalize_and_report calibration_weighed [Fin 0, Fin 0] Map.empty =
       (None,
        calibration_weighed\<lparr>normalizedWeights := NdArray [NaN, NaN]\<rparr>,
        [''CalibrationResults.csv'' \<mapsto>
           [csv_header, [CInt 0, CFlt NaN, CFlt (Fin (1 / 5))],
            [CInt 1, CFlt NaN, CFlt (Fin (4 / 5))]]])
   \<and> fst (draw_and_weigh settings_zero_stdev_two stub_seed stub_simulator 2 Calibration_init)
       = Inr [NaN, NaN]
   \<and> py_sum [NaN, NaN] = NaN
   \<and> sample_posterior settings_zero_stdev_two stub_seed stub_simulator 2 Calibration_init
        Map.empty =
       (None,
        \<lparr>cohortIDs = [0, 1], mortalitySamples = [Fin (1 / 2), Fin (1 / 3)],
         normalizedWeights = NdArray [NaN, NaN], mortalityResamples = []\<rparr>,
        [''CalibrationResults.csv'' \<mapsto>
           [csv_header, [CInt 0, CFlt NaN, CFlt (Fin (1 / 2))],
            [CInt 1, CFlt NaN, CFlt (Fin (1 / 3))]]])"
  by (simp add: upto_0_1 run_defs settings_zero_stdev_two_def calibration_weighed_def)

section \<open>CalibratedModel: loading, resampling and the random choice\<close>

lemma fmul_one: "fmul p (Fin 1) = p"
  by (cases p) (simp_all add: signed_inf_def)

lemma astype_int_small: "astype_int (Fin 0) = 0" "astype_int (Fin 1) = 1"
  by (simp_all add: astype_int_def)

lemma py_index_nat:
  "py_index xs (int i) = (if i < length xs then Inr (xs ! i) else Inl IndexError)"
  by (simp add: py_index_def Let_def)

lemma resample_loop_frame:
  "resample_loop idx rids self = (err, rids', self')
     \<Longrightarrow> \<exists>new. self' = self\<lparr>resampledMortalityProb := resampledMortalityProb self @ new\<rparr>"
proof (induction idx arbitrary: rids self)
  case Nil
  then have "self' = self\<lparr>resampledMortalityProb := resampledMortalityProb self @ []\<rparr>"
    by simp
  then show ?case by blast
next
  case (Cons i idx)
  show ?case
  proof (cases "i < length (cohortIDs_cm self) \<and> i < length (mortalityProbs self)")
    case False
    then have "self' = self\<lparr>resampledMortalityProb := resampledMortalityProb self @ []\<rparr>"
      using Cons.prems by (auto simp: py_index_nat split: if_splits)
    then show ?thesis by blast
  next
    case True
    let ?s = "self\<lparr>resampledMortalityProb :=
                 resampledMortalityProb self @ [mortalityProbs self ! i]\<rparr>"
    have "resample_loop idx (rids @ [cohortIDs_cm self ! i]) ?s = (err, rids', self')"
      using Cons.prems True by (simp add: py_index_nat)
    then obtain new where
      "self' = ?s\<lparr>resampledMortalityProb := resampledMortalityProb ?s @ new\<rparr>"
      using Cons.IH by blast
    then have "self' = self\<lparr>resampledMortalityProb :=
        resampledMortalityProb self @ (mortalityProbs self ! i # new)\<rparr>"
      by simp
    then show ?thesis by blast
  qed
qed

lemma resample_loop_success:
  "resample_loop idx rids self = (None, rids', self')
     \<Longrightarrow> self' = self\<lparr>resampledMortalityProb :=
                   resampledMortalityProb self @ map ((!) (mortalityProbs self)) idx\<rparr>
         \<and> rids' = rids @ map ((!) (cohortIDs_cm self)) idx
         \<and> list_all (\<lambda>i. i < length (mortalityProbs self)) idx"
proof (induction idx arbitrary: rids self)
  case Nil
  then show ?case by simp
next
  case (Cons i idx)
  have ok: "i < length (cohortIDs_cm self) \<and> i < length (mortalityProbs self)"
    using Cons.prems by (auto simp: py_index_nat split: if_splits)
  let ?s = "self\<lparr>resampledMortalityProb :=
               resampledMortalityProb self @ [mortalityProbs self ! i]\<rparr>"
  have "resample_loop idx (rids @ [cohortIDs_cm self ! i]) ?s = (None, rids', self')"
    using Cons.prems ok by (simp add: py_index_nat)
  from Cons.IH [OF this] show ?case using ok by simp
qed

lemma resample_loop_in_range:
  "list_all (\<lambda>i. i < length (cohortIDs_cm self) \<and> i < length (mortalityProbs self)) idx
     \<Longrightarrow> resample_loop idx rids self =
           (None, rids @ map ((!) (cohortIDs_cm self)) idx,
            self\<lparr>resampledMortalityProb :=
                   resampledMortalityProb self @ map ((!) (mortalityProbs self)) idx\<rparr>)"
proof (induction idx arbitrary: rids self)
  case Nil
  then show ?case by simp
next
  case (Cons i idx)
  let ?s = "self\<lparr>resampledMortalityProb :=
               resampledMortalityProb self @ [mortalityProbs self ! i]\<rparr>"
  have "list_all (\<lambda>i. i < length (cohortIDs_cm ?s) \<and> i < length (mortalityProbs ?s)) idx"
    using Cons.prems by simp
  from Cons.IH [OF this, of "rids @ [cohortIDs_cm self ! i]"] show ?case
    using Cons.prems by (simp add: py_index_nat)
qed

lemma finite_values_length: "finite_values p = Some ps \<Longrightarrow> length ps = length p"
  by (induction p arbitrary: ps) (auto split: npfloat.splits option.splits)

lemma np_random_choice_result:
  assumes "np_random_choice u k p = Inr idx"
  shows "0 \<le> k" and "length idx = nat k" and "list_all (\<lambda>j. j < length p) idx"
proof -
  from assms obtain ps where ps: "finite_values p = Some ps" and k: "\<not> k < 0"
    and idx: "idx = map (\<lambda>i. searchsorted_right
                 (map (\<lambda>c. c / last (cumsum 0 ps)) (cumsum 0 ps)) (u i)) [0..<nat k]"
    and rng: "list_all (\<lambda>j. j < length ps) idx"
    by (auto simp: np_random_choice_def Let_def split: option.splits if_splits)
  show "0 \<le> k" using k by simp
  show "length idx = nat k" using idx by simp
  show "list_all (\<lambda>j. j < length p) idx" using rng finite_values_length [OF ps] by simp
qed

lemmas simulate_defs =
  simulate_def np_random_choice_def searchsorted_right_def py_index_def py_repeat_def
  stub_seed_def stub_simulator_def Let_def upt_rec eval_nat_numeral

lemma choice_two:
  "np_random_choice (stub_seed 1) 2 (weights calibrated_two) = Inr [1, 0]"
  by (simp add: simulate_defs calibrated_two_def)

lemma length_cumsum: "length (cumsum acc xs) = length xs"
  by (induction xs arbitrary: acc) simp_all

lemma last_cumsum: "xs \<noteq> [] \<Longrightarrow> last (cumsum acc xs) = acc + sum_list xs"
proof (induction xs arbitrary: acc)
  case Nil
  then show ?case by simp
next
  case (Cons x xs)
  show ?case
  proof (cases xs)
    case Nil
    then show ?thesis by simp
  next
    case (Cons y ys)
    then have "xs \<noteq> []" by simp
    from Cons.IH [OF this, of "acc + x"] show ?thesis
      using Cons by (simp add: add.assoc)
  qed
qed

lemma takeWhile_stops:
  assumes "xs \<noteq> []" and "\<not> P (last xs)"
  shows "length (takeWhile P xs) < length xs"
proof -
  have "last xs \<in> set xs" using assms(1) by simp
  then have "takeWhile P xs \<noteq> xs" using assms(2) by (auto simp: takeWhile_eq_all_conv)
  moreover have "length (takeWhile P xs) \<le> length xs" by (rule length_takeWhile_le)
  ultimately show ?thesis
    by (metis le_neq_implies_less takeWhile_eq_take take_all_iff order_refl)
qed

lemma np_random_choice_returns:
  assumes fv: "finite_values p = Some ps" and ne: "ps \<noteq> []"
    and nonneg: "\<forall>r\<in>set ps. 0 \<le> r"
    and total: "\<bar>sum_list ps - 1\<bar> \<le> 1 / 2 ^ 26"
    and k: "0 \<le> k" and unit: "\<forall>i. u i < 1"
  shows "\<exists>idx. np_random_choice u k p = Inr idx"
proof -
  let ?cs = "cumsum 0 ps"
  let ?cdf = "map (\<lambda>c. c / last ?cs) ?cs"
  have "(1::real) / 2 ^ 26 < 1" by simp
  then have pos: "0 < sum_list ps" using total by linarith
  have cs: "?cs \<noteq> []" using ne length_cumsum [of 0 ps] by (metis length_0_conv)
  have lastcs: "last ?cs = sum_list ps" using last_cumsum [OF ne, of 0] by simp
  have "last ?cdf = last ?cs / last ?cs" using cs by (simp add: last_map)
  then have last1: "last ?cdf = 1" using lastcs pos by simp
  have bound: "searchsorted_right ?cdf (u i) < length ps" for i
  proof -
    have "\<not> last ?cdf \<le> u i" using last1 unit by (simp add: not_le)
    moreover have "?cdf \<noteq> []" using cs by simp
    ultimately have "length (takeWhile (\<lambda>c. c \<le> u i) ?cdf) < length ?cdf"
      by (intro takeWhile_stops)
    then show ?thesis by (simp add: searchsorted_right_def length_cumsum)
  qed
  have "\<not> list_ex (\<lambda>r. r < 0) ps" using nonneg by (auto simp: list_ex_iff)
  moreover have "\<not> 1 / 2 ^ 26 < \<bar>sum_list ps - 1\<bar>" using total by simp
  moreover have "list_all (\<lambda>j. j < length ps)
      (map (\<lambda>i. searchsorted_right ?cdf (u i)) [0..<nat k])"
    using bound by (simp add: list_all_iff)
  ultimately show ?thesis
    using fv ne k by (simp add: np_random_choice_def Let_def)
qed

lemma simulate_returns_normally:
  assumes fv: "finite_values (weights self) = Some ps" and ne: "ps \<noteq> []"
    and nonneg: "\<forall>r\<in>set ps. 0 \<le> r"
    and total: "\<bar>sum_list ps - 1\<bar> \<le> 1 / 2 ^ 26"
    and k: "0 \<le> k" and unit: "\<forall>i. u i < 1"
    and cols: "length (cohortIDs_cm self) = length (weights self)"
      "length (mortalityProbs self) = length (weights self)"
    and sim: "\<forall>a b c d. \<exists>means. sim a b c d = Inr means"
  shows "fst (simulate u sim k cohort_size time_steps cohort_ids self) = None"
proof -
  obtain idx where ch: "np_random_choice u k (weights self) = Inr idx"
    using np_random_choice_returns [OF fv ne nonneg total k unit] by blast
  note r = np_random_choice_result [OF ch]
  have "list_all (\<lambda>i. i < length (cohortIDs_cm self) \<and> i < length (mortalityProbs self)) idx"
    using r(3) cols by simp
  then have lp: "resample_loop idx [] self =
      (None, [] @ map ((!) (cohortIDs_cm self)) idx,
       self\<lparr>resampledMortalityProb :=
              resampledMortalityProb self @ map ((!) (mortalityProbs self)) idx\<rparr>)"
    by (rule resample_loop_in_range)
  obtain means where
    "sim (case cohort_ids of None \<Rightarrow> map ((!) (cohortIDs_cm self)) idx | Some given \<Rightarrow> given)
       (resampledMortalityProb self @ map ((!) (mortalityProbs self)) idx)
       (py_repeat cohort_size k) time_steps = Inr means"
    using sim by blast
  then show ?thesis
    using ch lp by (simp add: simulate_def Let_def)
qed

lemma simulate_resampled:
  assumes ch: "np_random_choice u k (weights self) = Inr idx"
    and cols: "length (cohortIDs_cm self) = length (weights self)"
      "length (mortalityProbs self) = length (weights self)"
  shows "\<exists>m. snd (simulate u sim k cohort_size time_steps cohort_ids self) =
           self\<lparr>resampledMortalityProb :=
                   resampledMortalityProb self @ map ((!) (mortalityProbs self)) idx,
                 multiCohorts := m\<rparr>"
proof -
  note r = np_random_choice_result [OF ch]
  have "list_all (\<lambda>i. i < length (cohortIDs_cm self) \<and> i < length (mortalityProbs self)) idx"
    using r(3) cols by simp
  then have lp: "resample_loop idx [] self =
      (None, [] @ map ((!) (cohortIDs_cm self)) idx,
       self\<lparr>resampledMortalityProb :=
              resampledMortalityProb self @ map ((!) (mortalityProbs self)) idx\<rparr>)"
    by (rule resample_loop_in_range)
  show ?thesis
    using ch lp by (auto simp: simulate_def Let_def split: sum.splits)
qed

lemma choice_one:
  "np_random_choice (stub_seed 1) 1 (weights calibrated_two) = Inr [1]"
  by (simp add: simulate_defs calibrated_two_def)

section \<open>CalibratedModel: the claims\<close>

text \<open>
  C7. When the reader returns three columns, construction succeeds and every loaded
  parameter is the value read times \<open>drug_effectiveness_ratio\<close>; with the default ratio the
  parameters are the values read; for the table with rows \<open>(0, 0.5, 0.2)\<close> and
  \<open>(1, 0.5, 0.8)\<close> and ratio 0.5 the loaded parameters are \<open>[0.1, 0.4]\<close>.
\<close>

theorem drug_effectiveness_ratio_scales:
  assumes "read_csv_cols csv_file_name 3 True True = Inr [c0, c1, c2]"
  shows "(\<exists>m. CalibratedModel_init read_csv_cols csv_file_name (Some ratio) = Inr m
              \<and> mortalityProbs m = map (\<lambda>p. fmul p ratio) c2)
       \<and> (\<exists>m. CalibratedModel_init read_csv_cols csv_file_name None = Inr m
              \<and> mortalityProbs m = c2)
       \<and> (\<exists>m. CalibratedModel_init stub_reader ''CalibrationResults.csv'' (Some (Fin (1 / 2)))
                = Inr m
              \<and> mortalityProbs m = [Fin (1 / 10), Fin (2 / 5)])"
  using assms
  by (simp add: CalibratedModel_init_def py_index_def Let_def fmul_one stub_reader_def)

theorem drug_effectiveness_ratio_scales_witness:
  "\<exists>m. CalibratedModel_init stub_reader ''CalibrationResults.csv'' None = Inr m
        \<and> mortalityProbs m = [Fin (1 / 5), Fin (4 / 5)]"
proof -
  have "stub_reader ''CalibrationResults.csv'' 3 True True =
      Inr [[Fin 0, Fin 1], [Fin (1 / 2), Fin (1 / 2)], [Fin (1 / 5), Fin (4 / 5)]]"
    by (simp add: stub_reader_def)
  then show ?thesis
    using drug_effectiveness_ratio_scales
            [of stub_reader "''CalibrationResults.csv''" "[Fin 0, Fin 1]"
                "[Fin (1 / 2), Fin (1 / 2)]" "[Fin (1 / 5), Fin (4 / 5)]"]
    by blast
qed

text \<open>
  C6 (as amended). Construction validates nothing itself: an error of the reader is passed
  on unchanged, fewer than three returned columns are an IndexError, and when three columns
  are returned construction succeeds whatever the weights sum to, with the weights stored
  exactly as read.
\<close>

theorem CalibratedModel_init_no_validation:
  "(read_csv_cols csv_file_name 3 True True = Inl e
      \<longrightarrow> CalibratedModel_init read_csv_cols csv_file_name ratio = Inl e)
   \<and> (read_csv_cols csv_file_name 3 True True = Inr cols \<and> length cols < 3
      \<longrightarrow> CalibratedModel_init read_csv_cols csv_file_name ratio = Inl IndexError)
   \<and> (read_csv_cols csv_file_name 3 True True = Inr [c0, c1, c2]
      \<longrightarrow> (\<exists>m. CalibratedModel_init read_csv_cols csv_file_name ratio = Inr m
              \<and> weights m = c1 \<and> cohortIDs_cm m = map astype_int c0
              \<and> resampledMortalityProb m = [] \<and> multiCohorts m = None))"
  by (auto simp: CalibratedModel_init_def py_index_def Let_def split: sum.splits)

theorem CalibratedModel_init_no_validation_witness:
  "(\<exists>m. CalibratedModel_init unnormalized_reader ''CalibrationResults.csv'' None = Inr m
        \<and> weights m = [Fin (1 / 2), Fin (1 / 5)])
   \<and> CalibratedModel_init missing_file_reader ''CalibrationResults.csv'' None
       = Inl FileNotFoundError
   \<and> CalibratedModel_init two_column_reader ''CalibrationResults.csv'' None = Inl IndexError"
proof -
  have "\<exists>m. CalibratedModel_init unnormalized_reader ''CalibrationResults.csv'' None = Inr m
        \<and> weights m = [Fin (1 / 2), Fin (1 / 5)]"
    using CalibratedModel_init_no_validation
            [of unnormalized_reader "''CalibrationResults.csv''" FileNotFoundError None
                "[]" "[Fin 0, Fin 1]" "[Fin (1 / 2), Fin (1 / 5)]"
                "[Fin (1 / 5), Fin (4 / 5)]"]
    by (auto simp: unnormalized_reader_def)
  moreover have "CalibratedModel_init missing_file_reader ''CalibrationResults.csv'' None
       = Inl FileNotFoundError"
    using CalibratedModel_init_no_validation
            [of missing_file_reader "''CalibrationResults.csv''" FileNotFoundError None]
    by (simp add: missing_file_reader_def)
  moreover have "CalibratedModel_init two_column_reader ''CalibrationResults.csv'' None
       = Inl IndexError"
    using CalibratedModel_init_no_validation
            [of two_column_reader "''CalibrationResults.csv''" FileNotFoundError None
                "[[Fin 0], [Fin 1]]"]
    by (simp add: two_column_reader_def)
  ultimately show ?thesis by blast
qed

text \<open>
  C6 as stated fails: a table whose weight column sums to 0.7 is loaded without an error,
  and the weights are kept as they are.
\<close>

theorem unnormalized_table_loads_counterexample:
  "CalibratedModel_init unnormalized_reader ''CalibrationResults.csv'' None =
     Inr \<lparr>cohortIDs_cm = [0, 1], weights = [Fin (1 / 2), Fin (1 / 5)],
          mortalityProbs = [Fin (1 / 5), Fin (4 / 5)], resampledMortalityProb = [],
          multiCohorts = None\<rparr>
   \<and> py_sum [Fin (1 / 2), Fin (1 / 5)] = Fin (7 / 10)"
  by (simp add: CalibratedModel_init_def unnormalized_reader_def py_index_def Let_def
      astype_int_small fmul_one py_sum_def)

text \<open>
  C8 (as amended). \<open>simulate\<close> does not compare the length of caller-provided ids with the
  number of cohorts. Whenever the resampling succeeds on a table whose columns have equal
  lengths, the resampled parameters are appended, the multi-cohort is built with the ids as
  given and one population size per requested cohort, and the simulator is run on it; the
  call raises only what the simulator raises.
\<close>

theorem simulate_accepts_any_cohort_ids:
  assumes ch: "np_random_choice u k (weights self) = Inr idx"
    and cols: "length (cohortIDs_cm self) = length (weights self)"
      "length (mortalityProbs self) = length (weights self)"
  shows "int (length idx) = k
       \<and> simulate u sim k cohort_size time_steps (Some given) self =
           (let self1 = self\<lparr>resampledMortalityProb :=
                               resampledMortalityProb self
                                 @ map ((!) (mortalityProbs self)) idx\<rparr>;
                mc = \<lparr>ids = given, pop_sizes = py_repeat cohort_size k,
                      mortality_probs = resampledMortalityProb self1,
                      meanSurvivalTimes = None\<rparr>
            in case sim given (resampledMortalityProb self1) (py_repeat cohort_size k)
                      time_steps of
                 Inl e \<Rightarrow> (Some e, self1\<lparr>multiCohorts := Some mc\<rparr>)
               | Inr means \<Rightarrow>
                   (None, self1\<lparr>multiCohorts := Some (mc\<lparr>meanSurvivalTimes := Some means\<rparr>)\<rparr>))"
proof -
  note r = np_random_choice_result [OF ch]
  have "list_all (\<lambda>i. i < length (cohortIDs_cm self) \<and> i < length (mortalityProbs self)) idx"
    using r(3) cols by simp
  from resample_loop_in_range [OF this, of "[]"] show ?thesis
    using ch r(1,2) by (simp add: simulate_def Let_def split: sum.splits)
qed

theorem simulate_accepts_any_cohort_ids_witness:
  "simulate (stub_seed 1) stub_simulator 2 100 10 (Some [7]) calibrated_two =
     (None, calibrated_relabelled)"
  using simulate_accepts_any_cohort_ids
          [OF choice_two, of stub_simulator 100 10 "[7]"]
  by (simp add: calibrated_two_def calibrated_relabelled_def stub_simulator_def
      py_repeat_def eval_nat_numeral Let_def)

text \<open>
  C8 as stated fails: a call for two cohorts with the single id 7 returns normally, and the
  multi-cohort holds one id and two population sizes.
\<close>

theorem cohort_ids_length_counterexample:
  "length [7 :: int] \<noteq> nat 2
   \<and> fst (simulate (stub_seed 1) stub_simulator 2 100 10 (Some [7]) calibrated_two) = None
   \<and> multiCohorts
        (snd (simulate (stub_seed 1) stub_simulator 2 100 10 (Some [7]) calibrated_two)) =
       Some \<lparr>ids = [7], pop_sizes = [100, 100],
             mortality_probs = [Fin (4 / 5), Fin (1 / 5)],
             meanSurvivalTimes = Some [Fin 4, Fin 16]\<rparr>"
  by (simp add: simulate_defs calibrated_two_def)

text \<open>
  C9 (as amended). On loaded weights that \<^verbatim>\<open>np.random.choice\<close> accepts (not empty,
  finite, non-negative, summing to 1 within \<open>2\<^sup>-\<^sup>2\<^sup>6\<close>), with columns of equal length, unit
  draws below 1 and \<open>k \<ge> 0\<close>, a call of \<open>simulate\<close> for \<open>k\<close> cohorts appends exactly \<open>k\<close>
  values to \<open>resampledMortalityProb\<close>, the loaded parameters at the sampled indices in
  sampling order, and removes none, whether the simulator then raises or not; after two
  such calls the list is the old list followed by the values of the first and then of the
  second call, and the credible interval is computed from that whole list.
\<close>

theorem simulate_accumulates:
  assumes fv: "finite_values (weights self) = Some ps"
    and ne: "ps \<noteq> []"
    and nonneg: "\<forall>r\<in>set ps. 0 \<le> r"
    and total: "\<bar>sum_list ps - 1\<bar> \<le> 1 / 2 ^ 26"
    and cols: "length (cohortIDs_cm self) = length (weights self)"
      "length (mortalityProbs self) = length (weights self)"
    and k1: "0 \<le> k1" and k2: "0 \<le> k2"
    and u1: "\<forall>i. u1 i < 1" and u2: "\<forall>i. u2 i < 1"
  shows "\<exists>idx1 idx2.
           np_random_choice u1 k1 (weights self) = Inr idx1
           \<and> np_random_choice u2 k2 (weights self) = Inr idx2
           \<and> int (length idx1) = k1 \<and> int (length idx2) = k2
           \<and> resampledMortalityProb (snd (simulate u1 sim1 k1 size1 steps1 ids1 self))
               = resampledMortalityProb self @ map ((!) (mortalityProbs self)) idx1
           \<and> resampledMortalityProb
                (snd (simulate u2 sim2 k2 size2 steps2 ids2
                        (snd (simulate u1 sim1 k1 size1 steps1 ids1 self))))
               = resampledMortalityProb self @ map ((!) (mortalityProbs self)) idx1
                   @ map ((!) (mortalityProbs self)) idx2
           \<and> get_mortality_estimate_credible_interval Stat alpha
                (snd (simulate u2 sim2 k2 size2 steps2 ids2
                        (snd (simulate u1 sim1 k1 size1 steps1 ids1 self))))
               = (case SummaryStat Stat ''Posterior samples''
                         (resampledMortalityProb self @ map ((!) (mortalityProbs self)) idx1
                            @ map ((!) (mortalityProbs self)) idx2) of
                    Inl e \<Rightarrow> Inl e
                  | Inr sum_stat \<Rightarrow> Inr (get_mean Stat sum_stat, get_PI Stat sum_stat alpha))"
proof -
  let ?self1 = "snd (simulate u1 sim1 k1 size1 steps1 ids1 self)"
  let ?self2 = "snd (simulate u2 sim2 k2 size2 steps2 ids2 ?self1)"
  obtain idx1 where c1: "np_random_choice u1 k1 (weights self) = Inr idx1"
    using np_random_choice_returns [OF fv ne nonneg total k1 u1] by blast
  obtain idx2 where c2: "np_random_choice u2 k2 (weights self) = Inr idx2"
    using np_random_choice_returns [OF fv ne nonneg total k2 u2] by blast
  let ?new1 = "map ((!) (mortalityProbs self)) idx1"
  let ?new2 = "map ((!) (mortalityProbs self)) idx2"
  obtain m1 where s1: "?self1 =
      self\<lparr>resampledMortalityProb := resampledMortalityProb self @ ?new1, multiCohorts := m1\<rparr>"
    using simulate_resampled [OF c1 cols] by blast
  have w1: "weights ?self1 = weights self" "cohortIDs_cm ?self1 = cohortIDs_cm self"
    "mortalityProbs ?self1 = mortalityProbs self"
    "resampledMortalityProb ?self1 = resampledMortalityProb self @ ?new1"
    by (simp_all add: s1)
  have c2': "np_random_choice u2 k2 (weights ?self1) = Inr idx2" using c2 w1(1) by simp
  have cols': "length (cohortIDs_cm ?self1) = length (weights ?self1)"
    "length (mortalityProbs ?self1) = length (weights ?self1)"
    using cols w1 by simp_all
  obtain m2 where s2: "?self2 =
      ?self1\<lparr>resampledMortalityProb :=
                 resampledMortalityProb ?self1 @ map ((!) (mortalityProbs ?self1)) idx2,
               multiCohorts := m2\<rparr>"
    using simulate_resampled [OF c2' cols'] by blast
  have acc: "resampledMortalityProb ?self2 = resampledMortalityProb self @ ?new1 @ ?new2"
    by (subst s2) (simp add: w1)
  have ci: "get_mortality_estimate_credible_interval Stat alpha ?self2 =
      (case SummaryStat Stat ''Posterior samples''
              (resampledMortalityProb self @ ?new1 @ ?new2) of
         Inl e \<Rightarrow> Inl e
       | Inr sum_stat \<Rightarrow> Inr (get_mean Stat sum_stat, get_PI Stat sum_stat alpha))"
    by (simp add: get_mortality_estimate_credible_interval_def acc Let_def split: sum.splits)
  have l1: "int (length idx1) = k1" using np_random_choice_result(1,2) [OF c1] by simp
  have l2: "int (length idx2) = k2" using np_random_choice_result(1,2) [OF c2] by simp
  show ?thesis
    using c1 c2 l1 l2 w1(4) acc ci by blast
qed

theorem simulate_accumulates_witness:
  "resampledMortalityProb
     (snd (simulate (stub_seed 1) stub_simulator 1 100 10 None
             (snd (simulate (stub_seed 1) stub_simulator 2 100 10 None calibrated_two))))
     = [Fin (4 / 5), Fin (1 / 5), Fin (4 / 5)]
   \<and> get_mortality_estimate_credible_interval stub_stat (Fin (1 / 20))
       (snd (simulate (stub_seed 1) stub_simulator 1 100 10 None
               (snd (simulate (stub_seed 1) stub_simulator 2 100 10 None calibrated_two))))
     = Inr (Fin (3 / 5), [Fin (4 / 5), Fin (4 / 5)])"
proof -
  let ?self2 = "snd (simulate (stub_seed 1) stub_simulator 1 100 10 None
                       (snd (simulate (stub_seed 1) stub_simulator 2 100 10 None
                               calibrated_two)))"
  have fv: "finite_values (weights calibrated_two) = Some [1 / 2, 1 / 2]"
    by (simp add: calibrated_two_def)
  have ne: "[1 / 2, 1 / 2 :: real] \<noteq> []" by simp
  have nonneg: "\<forall>r\<in>set [1 / 2, 1 / 2 :: real]. 0 \<le> r" by simp
  have total: "\<bar>sum_list [1 / 2, 1 / 2 :: real] - 1\<bar> \<le> 1 / 2 ^ 26" by simp
  have cols: "length (cohortIDs_cm calibrated_two) = length (weights calibrated_two)"
    "length (mortalityProbs calibrated_two) = length (weights calibrated_two)"
    by (simp_all add: calibrated_two_def)
  have unit: "\<forall>i. stub_seed 1 i < 1" by (simp add: stub_seed_def)
  obtain idx1 idx2 where
    c1: "np_random_choice (stub_seed 1) 2 (weights calibrated_two) = Inr idx1" and
    c2: "np_random_choice (stub_seed 1) 1 (weights calibrated_two) = Inr idx2" and
    acc: "resampledMortalityProb ?self2 =
            resampledMortalityProb calibrated_two
              @ map ((!) (mortalityProbs calibrated_two)) idx1
              @ map ((!) (mortalityProbs calibrated_two)) idx2" and
    ci: "get_mortality_estimate_credible_interval stub_stat (Fin (1 / 20)) ?self2 =
           (case SummaryStat stub_stat ''Posterior samples''
                   (resampledMortalityProb calibrated_two
                      @ map ((!) (mortalityProbs calibrated_two)) idx1
                      @ map ((!) (mortalityProbs calibrated_two)) idx2) of
              Inl e \<Rightarrow> Inl e
            | Inr sum_stat \<Rightarrow>
                Inr (get_mean stub_stat sum_stat, get_PI stub_stat sum_stat (Fin (1 / 20))))"
    using simulate_accumulates
            [OF fv ne nonneg total cols, of 2 1 "stub_seed 1" "stub_seed 1" stub_simulator
               100 10 None stub_simulator 100 10 None stub_stat "Fin (1 / 20)"]
          unit
    by auto
  have i1: "idx1 = [1, 0]" using c1 choice_two by simp
  have i2: "idx2 = [1]" using c2 choice_one by simp
  have all: "resampledMortalityProb calibrated_two
               @ map ((!) (mortalityProbs calibrated_two)) idx1
               @ map ((!) (mortalityProbs calibrated_two)) idx2
             = [Fin (4 / 5), Fin (1 / 5), Fin (4 / 5)]"
    by (simp add: i1 i2 calibrated_two_def)
  show ?thesis
    using acc ci unfolding all by (simp add: stub_stat_def py_sum_def)
qed

text \<open>
  C9 as stated fails: on the table whose weights sum to 0.7, which loads without an error,
  a call for two cohorts raises ValueError in \<^verbatim>\<open>np.random.choice\<close> and appends nothing.
\<close>

theorem rejected_resampling_counterexample:
  "CalibratedModel_init unnormalized_reader ''CalibrationResults.csv'' None
     = Inr calibrated_unnormalized
   \<and> simulate (stub_seed 1) stub_simulator 2 100 10 None calibrated_unnormalized
     = (Some ValueError, calibrated_unnormalized)
   \<and> resampledMortalityProb calibrated_unnormalized = []"
  by (simp add: CalibratedModel_init_def unnormalized_reader_def py_index_def Let_def
      astype_int_small fmul_one calibrated_unnormalized_def simulate_def
      np_random_choice_def)

text \<open>
  C10. Every call of \<open>simulate\<close>, whether it returns or raises, leaves \<open>cohortIDs\<close>,
  \<open>weights\<close> and \<open>mortalityProbs\<close> as they were; the object afterwards differs from the
  object before in \<open>resampledMortalityProb\<close> and \<open>multiCohorts\<close> at most.
\<close>

theorem simulate_frame:
  "cohortIDs_cm (snd (simulate u sim k cohort_size time_steps cohort_ids self))
     = cohortIDs_cm self
   \<and> weights (snd (simulate u sim k cohort_size time_steps cohort_ids self)) = weights self
   \<and> mortalityProbs (snd (simulate u sim k cohort_size time_steps cohort_ids self))
     = mortalityProbs self
   \<and> (\<exists>r m. snd (simulate u sim k cohort_size time_steps cohort_ids self)
              = self\<lparr>resampledMortalityProb := r, multiCohorts := m\<rparr>)"
proof -
  let ?out = "snd (simulate u sim k cohort_size time_steps cohort_ids self)"
  have "\<exists>r m. ?out = self\<lparr>resampledMortalityProb := r, multiCohorts := m\<rparr>"
  proof (cases "np_random_choice u k (weights self)")
    case (Inl e)
    then have "?out = self\<lparr>resampledMortalityProb := resampledMortalityProb self,
        multiCohorts := multiCohorts self\<rparr>"
      by (simp add: simulate_def)
    then show ?thesis by blast
  next
    case (Inr idx)
    obtain err rids self1 where lp: "resample_loop idx [] self = (err, rids, self1)"
      by (cases "resample_loop idx [] self") auto
    then obtain new where
      s1: "self1 = self\<lparr>resampledMortalityProb := resampledMortalityProb self @ new\<rparr>"
      using resample_loop_frame by blast
    have "\<exists>m. ?out = self1\<lparr>multiCohorts := m\<rparr>"
    proof (cases err)
      case (Some e)
      then have "?out = self1\<lparr>multiCohorts := multiCohorts self1\<rparr>"
        using Inr lp by (simp add: simulate_def)
      then show ?thesis by blast
    next
      case None
      then show ?thesis
        using Inr lp by (auto simp: simulate_def Let_def split: sum.splits)
    qed
    then obtain m where "?out = self1\<lparr>multiCohorts := m\<rparr>" by blast
    then have "?out = self\<lparr>resampledMortalityProb := resampledMortalityProb self @ new,
        multiCohorts := m\<rparr>"
      using s1 by simp
    then show ?thesis by blast
  qed
  then obtain r m where out: "?out = self\<lparr>resampledMortalityProb := r, multiCohorts := m\<rparr>"
    by blast
  have "cohortIDs_cm ?out = cohortIDs_cm self" "weights ?out = weights self"
    "mortalityProbs ?out = mortalityProbs self"
    by (simp_all add: out)
  then show ?thesis using out by blast
qed

theorem simulate_frame_witness:
  "cohortIDs_cm (snd (simulate (stub_seed 1) stub_simulator 2 100 10 None calibrated_two))
     = [0, 1]
   \<and> weights (snd (simulate (stub_seed 1) stub_simulator 2 100 10 None calibrated_two))
     = [Fin (1 / 2), Fin (1 / 2)]
   \<and> mortalityProbs (snd (simulate (stub_seed 1) stub_simulator 2 100 10 None calibrated_two))
     = [Fin (1 / 5), Fin (4 / 5)]"
  using simulate_frame [of "stub_seed 1" stub_simulator 2 100 10 None calibrated_two]
  by (simp add: calibrated_two_def)

end
